theory Spec2Isabelle
  imports Main "HOL-Library.Word"
begin

section \<open>Addresses: the part of Go's \<open>net\<close> package that \<open>processRecord\<close> calls\<close>

text \<open>
  \<open>processRecord\<close> decides with three functions of Go's standard library:
  \<open>net.ParseIP\<close>, \<open>IP.To4\<close> and \<open>IP.Equal\<close>. The program imports \<open>slices\<close>, so it
  builds with Go 1.21 or later, where \<open>net.ParseIP\<close> is \<open>netip.ParseAddr\<close> followed by
  \<open>As16\<close>, and fails on a zone. A \<open>net.IP\<close> is a byte slice; the \<open>nil\<close> slice is the
  empty list here, as \<open>len(nil) = 0\<close> in Go. The parsers count in Go's \<open>int\<close>, which
  none of their values leaves.
\<close>

type_synonym byte = "8 word"
type_synonym IP = "byte list"

definition IPv4len :: nat where
  "IPv4len = 4"

definition IPv6len :: nat where
  "IPv6len = 16"

definition v4InV6Prefix :: "byte list" where
  "v4InV6Prefix = [0, 0, 0, 0, 0, 0, 0, 0, 0, 0, 0xff, 0xff]"

definition isDigit :: "char \<Rightarrow> bool" where
  "isDigit c = (48 \<le> (of_char c :: int) \<and> (of_char c :: int) \<le> 57)"

text \<open>The value of a hexadecimal digit: \<open>0-9\<close>, \<open>a-f\<close>, \<open>A-F\<close>; \<open>None\<close> for any other byte.\<close>

definition hexVal :: "char \<Rightarrow> int option" where
  "hexVal c =
     (let n = (of_char c :: int) in
      if 48 \<le> n \<and> n \<le> 57 then Some (n - 48)
      else if 97 \<le> n \<and> n \<le> 102 then Some (n - 97 + 10)
      else if 65 \<le> n \<and> n \<le> 70 then Some (n - 65 + 10)
      else None)"

text \<open>
  \<open>parseIPv4\<close>: one pass over the bytes. \<open>prev\<close> is the byte before the current one
  (\<open>None\<close> at index 0), \<open>val\<close> the value of the current octet, \<open>pos\<close> the number of
  octets stored in \<open>fields\<close>, \<open>digLen\<close> the number of digits of the current octet. An
  octet with a leading zero, a value above 255, an empty octet, a fifth octet and any
  other byte are errors; so are fewer than four octets.
\<close>

fun parseIPv4_loop ::
  "string \<Rightarrow> char option \<Rightarrow> int \<Rightarrow> int \<Rightarrow> int \<Rightarrow> byte list \<Rightarrow> byte list option" where
  "parseIPv4_loop [] prev val pos digLen fields =
     (if pos < 3 then None else Some (fields @ [of_int val]))"
| "parseIPv4_loop (c # cs) prev val pos digLen fields =
     (if isDigit c then
        (if digLen = 1 \<and> val = 0 then None
         else
           (let val' = val * 10 + ((of_char c :: int) - 48) in
            if val' > 255 then None
            else parseIPv4_loop cs (Some c) val' pos (digLen + 1) fields))
      else if c = CHR ''.'' then
        (if prev = None \<or> cs = [] \<or> prev = Some (CHR ''.'') then None
         else if pos = 3 then None
         else parseIPv4_loop cs (Some c) 0 (pos + 1) 0 (fields @ [of_int val]))
      else None)"

definition parseIPv4 :: "string \<Rightarrow> byte list option" where
  "parseIPv4 s = parseIPv4_loop s None 0 0 0 []"

text \<open>
  The hexadecimal group at the head of \<open>s\<close>: the number of digits read, their value and
  the rest of the string. A fifth digit is an error.
\<close>

fun scanHex :: "string \<Rightarrow> int \<Rightarrow> int \<Rightarrow> (int \<times> int \<times> string) option" where
  "scanHex [] off acc = Some (off, acc, [])"
| "scanHex (c # cs) off acc =
     (case hexVal c of
        None \<Rightarrow> Some (off, acc, c # cs)
      | Some d \<Rightarrow>
          (let acc' = acc * 16 + d in
           if off > 3 then None
           else if acc' > 65535 then None
           else scanHex cs (off + 1) acc'))"

text \<open>
  After the loop of \<open>parseIPv6\<close>: the whole string must be used; a short address is
  filled with zeros at the ellipsis; a full one must have no ellipsis.
\<close>

definition parseIPv6_finish :: "string \<Rightarrow> byte list \<Rightarrow> nat option \<Rightarrow> byte list option" where
  "parseIPv6_finish s ip ellipsis =
     (if s \<noteq> [] then None
      else if length ip < 16 then
        (case ellipsis of
           None \<Rightarrow> None
         | Some e \<Rightarrow> Some (take e ip @ replicate (16 - length ip) 0 @ drop e ip))
      else if ellipsis \<noteq> None then None
      else Some ip)"

text \<open>
  The loop \<open>for i < 16\<close> of \<open>parseIPv6\<close>. \<open>ip\<close> holds the bytes written so far, so Go's
  \<open>i\<close> is \<open>length ip\<close>; every round adds two bytes (or four and stops), and the first
  argument counts the rounds left, \<open>(16 - i) div 2\<close>.
\<close>

fun parseIPv6_loop :: "nat \<Rightarrow> string \<Rightarrow> byte list \<Rightarrow> nat option \<Rightarrow> byte list option" where
  "parseIPv6_loop 0 s ip ellipsis = parseIPv6_finish s ip ellipsis"
| "parseIPv6_loop (Suc n) s ip ellipsis =
     (case scanHex s 0 0 of
        None \<Rightarrow> None
      | Some (off, acc, rest) \<Rightarrow>
          if off = 0 then None
          else if rest \<noteq> [] \<and> hd rest = CHR ''.'' then
            (if ellipsis = None \<and> length ip \<noteq> 12 then None
             else if length ip + 4 > 16 then None
             else
               (case parseIPv4 s of
                  None \<Rightarrow> None
                | Some ip4 \<Rightarrow> parseIPv6_finish [] (ip @ ip4) ellipsis))
          else
            (let ip' = ip @ [of_int (acc div 256), of_int (acc mod 256)] in
             case rest of
               [] \<Rightarrow> parseIPv6_finish [] ip' ellipsis
             | c # r1 \<Rightarrow>
                 if c \<noteq> CHR '':'' then None
                 else
                   (case r1 of
                      [] \<Rightarrow> None
                    | c2 # r2 \<Rightarrow>
                        if c2 = CHR '':'' then
                          (if ellipsis \<noteq> None then None
                           else if r2 = [] then parseIPv6_finish [] ip' (Some (length ip'))
                           else parseIPv6_loop n r2 ip' (Some (length ip')))
                        else parseIPv6_loop n r1 ip' ellipsis)))"

text \<open>
  \<open>parseIPv6\<close> as \<open>net.ParseIP\<close> sees it: a \<open>%\<close> starts a zone, and \<open>net.ParseIP\<close>
  refuses an address with a zone (an empty zone is an error of the parser itself).
\<close>

definition parseIPv6 :: "string \<Rightarrow> byte list option" where
  "parseIPv6 s =
     (if CHR ''%'' \<in> set s then None
      else
        (case s of
           c1 # c2 # s' \<Rightarrow>
             if c1 = CHR '':'' \<and> c2 = CHR '':'' then
               (if s' = [] then Some (replicate 16 0)
                else parseIPv6_loop 8 s' [] (Some 0))
             else parseIPv6_loop 8 s [] None
         | _ \<Rightarrow> parseIPv6_loop 8 s [] None))"

text \<open>
  \<open>netip.ParseAddr\<close> looks for the first \<open>.\<close>, \<open>:\<close> or \<open>%\<close> of the whole string and
  chooses the parser by it; a string with none of them is no address. \<open>As16\<close> puts an
  IPv4 address behind the prefix \<open>::ffff:0:0/96\<close>.
\<close>

fun ParseAddr_scan :: "string \<Rightarrow> string \<Rightarrow> byte list option" where
  "ParseAddr_scan [] s = None"
| "ParseAddr_scan (c # cs) s =
     (if c = CHR ''.'' then map_option (\<lambda>f. v4InV6Prefix @ f) (parseIPv4 s)
      else if c = CHR '':'' then parseIPv6 s
      else if c = CHR ''%'' then None
      else ParseAddr_scan cs s)"

definition ParseIP :: "string \<Rightarrow> IP" where
  "ParseIP s = (case ParseAddr_scan s s of None \<Rightarrow> [] | Some ip \<Rightarrow> ip)"

definition To4 :: "IP \<Rightarrow> IP" where
  "To4 ip =
     (if length ip = IPv4len then ip
      else if length ip = IPv6len \<and> take 10 ip = replicate 10 0
              \<and> ip ! 10 = 0xff \<and> ip ! 11 = 0xff
      then drop 12 ip
      else [])"

definition Equal :: "IP \<Rightarrow> IP \<Rightarrow> bool" where
  "Equal ip x =
     (if length ip = length x then ip = x
      else if length ip = IPv4len \<and> length x = IPv6len then
        take 12 x = v4InV6Prefix \<and> ip = drop 12 x
      else if length ip = IPv6len \<and> length x = IPv4len then
        take 12 ip = v4InV6Prefix \<and> drop 12 ip = x
      else False)"

section \<open>Configuration and the provider's record sets\<close>

text \<open>
  The structs of the program. \<open>DynDnsConfig.A\<close> and \<open>DynDnsConfig.AAAA\<close> are the fields
  \<open>RecordA\<close> and \<open>RecordAAAA\<close> here. \<open>Zones\<close> is a Go map from a zone name to its record
  names; a \<open>range\<close> over a map visits the keys in an order the language leaves open, so
  the map is the list of its entries in the order of the visit, and nothing below
  depends on that order.
\<close>

record RecordConfig =
  Enabled :: bool
  Source :: string

record DynDnsConfig =
  HetznerApiKey :: string
  RecordTTL :: int
  Zones :: "(string \<times> string list) list"
  RecordA :: RecordConfig
  RecordAAAA :: RecordConfig

record rrSetRecord =
  Value :: string

record rrSetPayload =
  Name :: string
  Type :: string
  TTL :: int
  Records :: "rrSetRecord list"

record rrSetResponse =
  RRSet :: rrSetPayload

text \<open>
  \<open>json.Marshal\<close> of an \<open>rrSetPayload\<close>, as the tree of the JSON text it writes. The
  tags \<open>name,omitempty\<close>, \<open>type,omitempty\<close> and \<open>ttl,omitempty\<close> leave a field out when it
  is the empty string or zero; \<open>records\<close> and \<open>value\<close> are always written. Marshalling
  this struct cannot fail. Both callers pass a list of one record.
\<close>

datatype json =
    JString string
  | JNumber int
  | JArray "json list"
  | JObject "(string \<times> json) list"

definition Marshal_rrSetRecord :: "rrSetRecord \<Rightarrow> json" where
  "Marshal_rrSetRecord r = JObject [(''value'', JString (Value r))]"

definition Marshal :: "rrSetPayload \<Rightarrow> json" where
  "Marshal p =
     JObject
       ((if Name p = [] then [] else [(''name'', JString (Name p))]) @
        (if Type p = [] then [] else [(''type'', JString (Type p))]) @
        (if TTL p = 0 then [] else [(''ttl'', JNumber (TTL p))]) @
        [(''records'', JArray (map Marshal_rrSetRecord (Records p)))])"

section \<open>The network, the log and fatal exits\<close>

text \<open>
  A request as it is handed to Go's HTTP client, and what comes back: an error of the
  client (\<open>http.NewRequest\<close> or the transport), or a response with its status and its
  body. \<open>io.ReadAll\<close> on the body gives the bytes read and possibly an error.
  \<open>UnexpectedResponse code body\<close> is the error of
  \<open>fmt.Errorf("unexpected api response %d %s", code, body)\<close>. Closing the body of a
  response, and the line logged when that fails, are left out.
\<close>

datatype error =
    TransportError string
  | ReadError string
  | UnexpectedResponse int string
  | DecodeError string

record request =
  Method :: string
  URL :: string
  Header :: "(string \<times> string) list"
  Body :: "json option"

record response =
  StatusCode :: int
  bodyData :: string
  bodyErr :: "error option"

text \<open>
  The world outside the process: the answer to a request may depend on the requests sent
  before it. \<open>Unmarshal\<close> is \<open>json.Unmarshal\<close> into an \<open>rrSetResponse\<close>.
\<close>

record world =
  roundTrip :: "request list \<Rightarrow> request \<Rightarrow> error + response"
  Unmarshal :: "string \<Rightarrow> error + rrSetResponse"

text \<open>
  The lines the program logs before and instead of a mutation, and the state of a run:
  the requests handed to the HTTP client so far, in order, and the lines logged.
\<close>

datatype logline =
    LogCreating string string string string
  | LogUpdating string string string string
  | LogSkipping string string string

record state =
  requests :: "request list"
  logged :: "logline list"

text \<open>\<open>log.Fatal\<close> ends the process: one constructor for each call of it.\<close>

datatype fatal =
    CouldNotFetchIP string error
  | CouldNotReadResponse error
  | InvalidIP string
  | CouldNotCheckRecord error
  | CouldNotParseResponse "string option" error
  | CouldNotCreateRecord string string string string error
  | CouldNotUpdateRecord string string string string error

definition send :: "world \<Rightarrow> request \<Rightarrow> state \<Rightarrow> state \<times> (error + response)" where
  "send w req st = (st\<lparr>requests := requests st @ [req]\<rparr>, roundTrip w (requests st) req)"

section \<open>The provider client\<close>

definition authRequest :: "string \<Rightarrow> string \<Rightarrow> string \<Rightarrow> rrSetPayload option \<Rightarrow> request" where
  "authRequest method apiKey url payload =
     \<lparr>Method = method, URL = url,
      Header = [(''Content-Type'', ''application/json''),
                (''Authorization'', ''Bearer '' @ apiKey)],
      Body = map_option Marshal payload\<rparr>"

text \<open>
  \<open>doAuthenticated\<close> returns \<open>(0, nil, err)\<close> on an error and \<open>(status, body, nil)\<close>
  otherwise, with \<open>body = nil\<close> when \<open>readBody\<close> is false. On an unexpected status the
  error of \<open>io.ReadAll\<close> is dropped and the bytes read go into the message.
\<close>

definition doAuthenticated ::
  "world \<Rightarrow> string \<Rightarrow> string \<Rightarrow> string \<Rightarrow> rrSetPayload option \<Rightarrow> int list \<Rightarrow> bool \<Rightarrow> state
     \<Rightarrow> state \<times> (error + int \<times> string option)" where
  "doAuthenticated w method apiKey url payload expectedStatusCodes readBody st =
     (case send w (authRequest method apiKey url payload) st of
        (st', Inl err) \<Rightarrow> (st', Inl err)
      | (st', Inr res) \<Rightarrow>
          if StatusCode res \<notin> set expectedStatusCodes then
            (st', Inl (UnexpectedResponse (StatusCode res) (bodyData res)))
          else if readBody then
            (case bodyErr res of
               Some err \<Rightarrow> (st', Inl err)
             | None \<Rightarrow> (st', Inr (StatusCode res, Some (bodyData res))))
          else (st', Inr (StatusCode res, None)))"

definition getPublicIP :: "world \<Rightarrow> RecordConfig \<Rightarrow> state \<Rightarrow> state \<times> (fatal + string)" where
  "getPublicIP w recordConfig st =
     (case send w \<lparr>Method = ''GET'', URL = Source recordConfig, Header = [], Body = None\<rparr> st of
        (st', Inl err) \<Rightarrow> (st', Inl (CouldNotFetchIP (Source recordConfig) err))
      | (st', Inr res) \<Rightarrow>
          (case bodyErr res of
             Some err \<Rightarrow> (st', Inl (CouldNotReadResponse err))
           | None \<Rightarrow> (st', Inr (bodyData res))))"

definition rrsetEndpoint :: "string \<Rightarrow> string \<Rightarrow> string \<Rightarrow> string" where
  "rrsetEndpoint zoneName recordName recordType =
     ''https://api.hetzner.cloud/v1/zones/'' @ zoneName @ ''/rrsets/'' @ recordName @ ''/'' @ recordType"

definition createEndpoint :: "string \<Rightarrow> string" where
  "createEndpoint zoneName = ''https://api.hetzner.cloud/v1/zones/'' @ zoneName @ ''/rrsets''"

definition setRecordsEndpoint :: "string \<Rightarrow> string \<Rightarrow> string \<Rightarrow> string" where
  "setRecordsEndpoint zoneName recordName recordType =
     ''https://api.hetzner.cloud/v1/zones/'' @ zoneName @ ''/rrsets/'' @ recordName @ ''/''
       @ recordType @ ''/actions/set_records''"

text \<open>\<open>getCurrentRecord\<close> returns the empty string for a record that is not there.\<close>

definition getCurrentRecord ::
  "world \<Rightarrow> DynDnsConfig \<Rightarrow> string \<Rightarrow> string \<Rightarrow> string \<Rightarrow> state \<Rightarrow> state \<times> (fatal + string)" where
  "getCurrentRecord w config zoneName recordName recordType st =
     (case doAuthenticated w ''GET'' (HetznerApiKey config)
             (rrsetEndpoint zoneName recordName recordType) None [200, 404] True st of
        (st', Inl err) \<Rightarrow> (st', Inl (CouldNotCheckRecord err))
      | (st', Inr (statusCode, body)) \<Rightarrow>
          if statusCode = 404 then (st', Inr [])
          else
            (case Unmarshal w (case body of None \<Rightarrow> [] | Some b \<Rightarrow> b) of
               Inl err \<Rightarrow> (st', Inl (CouldNotParseResponse body err))
             | Inr parsedResponse \<Rightarrow>
                 (case Records (RRSet parsedResponse) of
                    rec # _ \<Rightarrow> (st', Inr (Value rec))
                  | [] \<Rightarrow> (st', Inr []))))"

definition createPayload :: "DynDnsConfig \<Rightarrow> string \<Rightarrow> string \<Rightarrow> string \<Rightarrow> rrSetPayload" where
  "createPayload config recordName recordType publicIp =
     \<lparr>Name = recordName, Type = recordType, TTL = RecordTTL config,
      Records = [\<lparr>Value = publicIp\<rparr>]\<rparr>"

definition updatePayload :: "string \<Rightarrow> rrSetPayload" where
  "updatePayload publicIp = \<lparr>Name = [], Type = [], TTL = 0, Records = [\<lparr>Value = publicIp\<rparr>]\<rparr>"

definition createRecord ::
  "world \<Rightarrow> DynDnsConfig \<Rightarrow> string \<Rightarrow> string \<Rightarrow> string \<Rightarrow> string \<Rightarrow> state \<Rightarrow> state \<times> (fatal + unit)" where
  "createRecord w config zoneName recordName recordType publicIp st =
     (let st0 = st\<lparr>logged := logged st @ [LogCreating recordName zoneName recordType publicIp]\<rparr> in
      case doAuthenticated w ''POST'' (HetznerApiKey config) (createEndpoint zoneName)
             (Some (createPayload config recordName recordType publicIp)) [201] False st0 of
        (st', Inl err) \<Rightarrow>
          (st', Inl (CouldNotCreateRecord recordName zoneName recordType publicIp err))
      | (st', Inr _) \<Rightarrow> (st', Inr ()))"

definition updateRecord ::
  "world \<Rightarrow> DynDnsConfig \<Rightarrow> string \<Rightarrow> string \<Rightarrow> string \<Rightarrow> string \<Rightarrow> state \<Rightarrow> state \<times> (fatal + unit)" where
  "updateRecord w config zoneName recordName recordType publicIp st =
     (let st0 = st\<lparr>logged := logged st @ [LogUpdating recordName zoneName recordType publicIp]\<rparr> in
      case doAuthenticated w ''POST'' (HetznerApiKey config)
             (setRecordsEndpoint zoneName recordName recordType)
             (Some (updatePayload publicIp)) [201] False st0 of
        (st', Inl err) \<Rightarrow>
          (st', Inl (CouldNotUpdateRecord recordName zoneName recordType publicIp err))
      | (st', Inr _) \<Rightarrow> (st', Inr ()))"

section \<open>The reconciler\<close>

text \<open>The body of the inner loop of \<open>processRecord\<close>: one zone, one record name.\<close>

definition processRecord_target ::
  "world \<Rightarrow> DynDnsConfig \<Rightarrow> string \<Rightarrow> string \<Rightarrow> IP \<Rightarrow> string \<Rightarrow> string \<Rightarrow> state
     \<Rightarrow> state \<times> (fatal + unit)" where
  "processRecord_target w config recordType ipString parsedIp zoneName recordName st =
     (case getCurrentRecord w config zoneName recordName recordType st of
        (st', Inl f) \<Rightarrow> (st', Inl f)
      | (st', Inr currentAddress) \<Rightarrow>
          if currentAddress = [] then
            createRecord w config zoneName recordName recordType ipString st'
          else if Equal parsedIp (ParseIP currentAddress) then
            (st'\<lparr>logged := logged st' @ [LogSkipping recordName zoneName recordType]\<rparr>, Inr ())
          else updateRecord w config zoneName recordName recordType ipString st')"

fun processRecord_names ::
  "world \<Rightarrow> DynDnsConfig \<Rightarrow> string \<Rightarrow> string \<Rightarrow> IP \<Rightarrow> string \<Rightarrow> string list \<Rightarrow> state
     \<Rightarrow> state \<times> (fatal + unit)" where
  "processRecord_names w config recordType ipString parsedIp zoneName [] st = (st, Inr ())"
| "processRecord_names w config recordType ipString parsedIp zoneName (recordName # recordNames) st =
     (case processRecord_target w config recordType ipString parsedIp zoneName recordName st of
        (st', Inl f) \<Rightarrow> (st', Inl f)
      | (st', Inr _) \<Rightarrow>
          processRecord_names w config recordType ipString parsedIp zoneName recordNames st')"

fun processRecord_zones ::
  "world \<Rightarrow> DynDnsConfig \<Rightarrow> string \<Rightarrow> string \<Rightarrow> IP \<Rightarrow> (string \<times> string list) list \<Rightarrow> state
     \<Rightarrow> state \<times> (fatal + unit)" where
  "processRecord_zones w config recordType ipString parsedIp [] st = (st, Inr ())"
| "processRecord_zones w config recordType ipString parsedIp ((zoneName, recordNames) # zones) st =
     (case processRecord_names w config recordType ipString parsedIp zoneName recordNames st of
        (st', Inl f) \<Rightarrow> (st', Inl f)
      | (st', Inr _) \<Rightarrow> processRecord_zones w config recordType ipString parsedIp zones st')"

definition processRecord ::
  "world \<Rightarrow> DynDnsConfig \<Rightarrow> string \<Rightarrow> RecordConfig \<Rightarrow> state \<Rightarrow> state \<times> (fatal + unit)" where
  "processRecord w config recordType recordConfig st =
     (if \<not> Enabled recordConfig then (st, Inr ())
      else
        (case getPublicIP w recordConfig st of
           (st', Inl f) \<Rightarrow> (st', Inl f)
         | (st', Inr ipString) \<Rightarrow>
             (let parsedIp = ParseIP ipString in
              if parsedIp = [] \<or> ((recordType = ''A'') = (To4 parsedIp = [])) then
                (st', Inl (InvalidIP ipString))
              else processRecord_zones w config recordType ipString parsedIp (Zones config) st')))"

definition main :: "world \<Rightarrow> DynDnsConfig \<Rightarrow> state \<Rightarrow> state \<times> (fatal + unit)" where
  "main w config st =
     (case processRecord w config ''A'' (RecordA config) st of
        (st', Inl f) \<Rightarrow> (st', Inl f)
      | (st', Inr _) \<Rightarrow> processRecord w config ''AAAA'' (RecordAAAA config) st')"

text \<open>
  The remote state of a record as the spec names it, read off the string that
  \<open>getCurrentRecord\<close> returns the way \<open>processRecord\<close> reads it: the test
  \<open>currentAddress == ""\<close> takes the empty string for a record that is absent.
  \<open>readRecord\<close> is the spec's name for \<open>getCurrentRecord\<close> with its result read so.
\<close>

datatype RemoteRecordState = Absent | Present string

definition remoteState :: "string \<Rightarrow> RemoteRecordState" where
  "remoteState currentAddress = (if currentAddress = [] then Absent else Present currentAddress)"

definition readRecord ::
  "world \<Rightarrow> DynDnsConfig \<Rightarrow> string \<Rightarrow> string \<Rightarrow> string \<Rightarrow> state \<Rightarrow> fatal + RemoteRecordState" where
  "readRecord w config zoneName recordName recordType st =
     (case snd (getCurrentRecord w config zoneName recordName recordType st) of
        Inl f \<Rightarrow> Inl f
      | Inr currentAddress \<Rightarrow> Inr (remoteState currentAddress))"

section \<open>Scenarios\<close>

text \<open>
  A world for the end-to-end scenarios: the address service (the request without
  headers) answers 200 with the text \<open>ip\<close>; a read of the provider answers with the
  status \<open>status\<close>; every \<open>POST\<close> answers with \<open>post\<close>. The provider's body stands
  for a record set: the decoder of the scenario reads the body text \<open>v\<close> as the record
  set with the one value \<open>v\<close>, and the empty body as a record set without records.
\<close>

definition scenario_Unmarshal :: "string \<Rightarrow> error + rrSetResponse" where
  "scenario_Unmarshal b =
     Inr \<lparr>RRSet = \<lparr>Name = [], Type = [], TTL = 0,
                   Records = (if b = [] then [] else [\<lparr>Value = b\<rparr>])\<rparr>\<rparr>"

definition scenario_world :: "string \<Rightarrow> int \<Rightarrow> string \<Rightarrow> int \<Rightarrow> world" where
  "scenario_world ip status current post =
     \<lparr>roundTrip = (\<lambda>sent req.
        if Method req = ''GET'' \<and> Header req = [] then
          Inr \<lparr>StatusCode = 200, bodyData = ip, bodyErr = None\<rparr>
        else if Method req = ''GET'' then
          Inr \<lparr>StatusCode = status, bodyData = current, bodyErr = None\<rparr>
        else Inr \<lparr>StatusCode = post, bodyData = ''quota'', bodyErr = None\<rparr>),
      Unmarshal = scenario_Unmarshal\<rparr>"

definition scenario_config :: "int \<Rightarrow> DynDnsConfig" where
  "scenario_config ttl =
     \<lparr>HetznerApiKey = ''secret'', RecordTTL = ttl,
      Zones = [(''example.de'', [''homelab''])],
      RecordA = \<lparr>Enabled = True, Source = ''https://ipv4.seeip.org''\<rparr>,
      RecordAAAA = \<lparr>Enabled = False, Source = ''https://ipv6.seeip.org''\<rparr>\<rparr>"

definition initial_state :: state where
  "initial_state = \<lparr>requests = [], logged = []\<rparr>"

text \<open>The member of a JSON object under a key.\<close>

fun jsonField :: "string \<Rightarrow> json \<Rightarrow> json option" where
  "jsonField k (JObject kvs) = map_of kvs k"
| "jsonField k _ = None"

section \<open>What each call sends and returns\<close>

lemma doAuthenticated_state:
  "fst (doAuthenticated w m k u p e rb st) = st\<lparr>requests := requests st @ [authRequest m k u p]\<rparr>"
  by (simp add: doAuthenticated_def send_def split: sum.splits option.splits)

lemma doAuthenticated_result:
  "snd (doAuthenticated w m k u p e rb st) =
     (case roundTrip w (requests st) (authRequest m k u p) of
        Inl err \<Rightarrow> Inl err
      | Inr res \<Rightarrow>
          if StatusCode res \<notin> set e then Inl (UnexpectedResponse (StatusCode res) (bodyData res))
          else if rb then (case bodyErr res of Some err \<Rightarrow> Inl err
                           | None \<Rightarrow> Inr (StatusCode res, Some (bodyData res)))
          else Inr (StatusCode res, None))"
  by (simp add: doAuthenticated_def send_def split: sum.splits option.splits)

lemma getCurrentRecord_state:
  "fst (getCurrentRecord w config z n t st) =
     st\<lparr>requests := requests st @ [authRequest ''GET'' (HetznerApiKey config) (rrsetEndpoint z n t) None]\<rparr>"
  using doAuthenticated_state [of w "''GET''" "HetznerApiKey config" "rrsetEndpoint z n t" None "[200, 404]" True st]
  by (auto simp: getCurrentRecord_def split: prod.splits sum.splits list.splits)

lemma createRecord_state:
  "fst (createRecord w config z n t ip st) =
     st\<lparr>requests := requests st @ [authRequest ''POST'' (HetznerApiKey config) (createEndpoint z)
                                      (Some (createPayload config n t ip))],
        logged := logged st @ [LogCreating n z t ip]\<rparr>"
  using doAuthenticated_state [of w "''POST''" "HetznerApiKey config" "createEndpoint z"
      "Some (createPayload config n t ip)" "[201]" False
      "st\<lparr>logged := logged st @ [LogCreating n z t ip]\<rparr>"]
  by (auto simp: createRecord_def Let_def split: prod.splits sum.splits)

lemma createRecord_result:
  "snd (createRecord w config z n t ip st) =
     (case roundTrip w (requests st) (authRequest ''POST'' (HetznerApiKey config) (createEndpoint z)
                                      (Some (createPayload config n t ip))) of
        Inl err \<Rightarrow> Inl (CouldNotCreateRecord n z t ip err)
      | Inr res \<Rightarrow> if StatusCode res = 201 then Inr ()
                   else Inl (CouldNotCreateRecord n z t ip (UnexpectedResponse (StatusCode res) (bodyData res))))"
  using doAuthenticated_result [of w "''POST''" "HetznerApiKey config" "createEndpoint z"
      "Some (createPayload config n t ip)" "[201]" False
      "st\<lparr>logged := logged st @ [LogCreating n z t ip]\<rparr>"]
  by (auto simp: createRecord_def Let_def split: prod.splits sum.splits)

lemma updateRecord_state:
  "fst (updateRecord w config z n t ip st) =
     st\<lparr>requests := requests st @ [authRequest ''POST'' (HetznerApiKey config) (setRecordsEndpoint z n t)
                                      (Some (updatePayload ip))],
        logged := logged st @ [LogUpdating n z t ip]\<rparr>"
  using doAuthenticated_state [of w "''POST''" "HetznerApiKey config" "setRecordsEndpoint z n t"
      "Some (updatePayload ip)" "[201]" False
      "st\<lparr>logged := logged st @ [LogUpdating n z t ip]\<rparr>"]
  by (auto simp: updateRecord_def Let_def split: prod.splits sum.splits)

lemma updateRecord_result:
  "snd (updateRecord w config z n t ip st) =
     (case roundTrip w (requests st) (authRequest ''POST'' (HetznerApiKey config) (setRecordsEndpoint z n t)
                                      (Some (updatePayload ip))) of
        Inl err \<Rightarrow> Inl (CouldNotUpdateRecord n z t ip err)
      | Inr res \<Rightarrow> if StatusCode res = 201 then Inr ()
                   else Inl (CouldNotUpdateRecord n z t ip (UnexpectedResponse (StatusCode res) (bodyData res))))"
  using doAuthenticated_result [of w "''POST''" "HetznerApiKey config" "setRecordsEndpoint z n t"
      "Some (updatePayload ip)" "[201]" False
      "st\<lparr>logged := logged st @ [LogUpdating n z t ip]\<rparr>"]
  by (auto simp: updateRecord_def Let_def split: prod.splits sum.splits)

lemma getCurrentRecord_result:
  "snd (getCurrentRecord w config z n t st) =
     (case roundTrip w (requests st) (authRequest ''GET'' (HetznerApiKey config) (rrsetEndpoint z n t) None) of
        Inl err \<Rightarrow> Inl (CouldNotCheckRecord err)
      | Inr res \<Rightarrow>
          if StatusCode res \<noteq> 200 \<and> StatusCode res \<noteq> 404 then
            Inl (CouldNotCheckRecord (UnexpectedResponse (StatusCode res) (bodyData res)))
          else (case bodyErr res of
                  Some err \<Rightarrow> Inl (CouldNotCheckRecord err)
                | None \<Rightarrow>
                    if StatusCode res = 404 then Inr []
                    else (case Unmarshal w (bodyData res) of
                            Inl err \<Rightarrow> Inl (CouldNotParseResponse (Some (bodyData res)) err)
                          | Inr pr \<Rightarrow> (case Records (RRSet pr) of [] \<Rightarrow> Inr [] | r # rs \<Rightarrow> Inr (Value r)))))"
proof (cases "roundTrip w (requests st) (authRequest ''GET'' (HetznerApiKey config) (rrsetEndpoint z n t) None)")
  case (Inl err)
  then show ?thesis
    by (simp add: getCurrentRecord_def doAuthenticated_def send_def)
next
  case (Inr res)
  then show ?thesis
    by (simp add: getCurrentRecord_def doAuthenticated_def send_def
             split: option.split sum.split list.split)
qed

text \<open>
  Once the record type is switched on and the address it got is valid for it,
  \<open>processRecord\<close> is the loop over the zones and their record names, from the state the
  address service left.
\<close>

lemma getPublicIP_state:
  "fst (getPublicIP w rc st) =
     st\<lparr>requests := requests st @ [\<lparr>Method = ''GET'', URL = Source rc, Header = [], Body = None\<rparr>]\<rparr>"
  by (simp add: getPublicIP_def send_def split: sum.splits option.splits)

lemma processRecord_validated:
  assumes "Enabled rc" and "getPublicIP w rc st = (st1, Inr ipString)"
      and "ParseIP ipString \<noteq> []" and "(recordType = ''A'') \<noteq> (To4 (ParseIP ipString) = [])"
  shows "processRecord w config recordType rc st =
           processRecord_zones w config recordType ipString (ParseIP ipString) (Zones config) st1"
  using assms by (simp add: processRecord_def Let_def)

lemma ParseIP_empty: "ParseIP [] = []"
  by (simp add: ParseIP_def)

lemma Equal_same: "Equal ip ip"
  by (simp add: Equal_def)

text \<open>
  The two loops of \<open>processRecord\<close> go through the record names of the zones in order and
  stop at the first fatal error: a run over a list of names or zones is the run over a
  first part followed, if that was not fatal, by the run over the rest.
\<close>

lemma processRecord_names_append:
  "processRecord_names w config t ip pip z (ns1 @ ns2) st =
     (case processRecord_names w config t ip pip z ns1 st of
        (st', Inl f) \<Rightarrow> (st', Inl f)
      | (st', Inr u) \<Rightarrow> processRecord_names w config t ip pip z ns2 st')"
  by (induction ns1 arbitrary: st) (simp_all split: prod.split sum.split)

lemma processRecord_zones_append:
  "processRecord_zones w config t ip pip (zs1 @ zs2) st =
     (case processRecord_zones w config t ip pip zs1 st of
        (st', Inl f) \<Rightarrow> (st', Inl f)
      | (st', Inr u) \<Rightarrow> processRecord_zones w config t ip pip zs2 st')"
proof (induction zs1 arbitrary: st)
  case Nil
  show ?case by simp
next
  case (Cons a zs1)
  obtain z ns where a: "a = (z, ns)" by (cases a)
  show ?case
    by (simp add: a Cons.IH split: prod.split sum.split)
qed

lemma processRecord_zones_reach:
  assumes "processRecord_zones w config t ip pip (zs1 @ [(z, ns1)]) st = (st2, Inr ())"
  shows "processRecord_zones w config t ip pip (zs1 @ (z, ns1 @ n # ns2) # zs2) st =
           (case processRecord_target w config t ip pip z n st2 of
              (st3, Inl f) \<Rightarrow> (st3, Inl f)
            | (st3, Inr u) \<Rightarrow> processRecord_zones w config t ip pip ((z, ns2) # zs2) st3)"
proof -
  obtain sta ra where A: "processRecord_zones w config t ip pip zs1 st = (sta, ra)"
    by (cases "processRecord_zones w config t ip pip zs1 st")
  have split1: "processRecord_zones w config t ip pip (zs1 @ [(z, ns1)]) st =
           (case processRecord_zones w config t ip pip zs1 st of
              (st', Inl f) \<Rightarrow> (st', Inl f)
            | (st', Inr u) \<Rightarrow> processRecord_zones w config t ip pip [(z, ns1)] st')"
    by (rule processRecord_zones_append)
  from assms split1 A obtain u where ra: "ra = Inr u"
    by (cases ra) auto
  from assms split1 A ra
  have B: "processRecord_zones w config t ip pip [(z, ns1)] sta = (st2, Inr ())"
    by simp
  then have C: "processRecord_names w config t ip pip z ns1 sta = (st2, Inr ())"
    by (simp split: prod.splits sum.splits)
  have "processRecord_zones w config t ip pip (zs1 @ (z, ns1 @ n # ns2) # zs2) st =
          processRecord_zones w config t ip pip ((z, ns1 @ n # ns2) # zs2) sta"
    by (simp add: processRecord_zones_append [of w config t ip pip zs1 "(z, ns1 @ n # ns2) # zs2" st] A ra)
  also have "\<dots> =
      (case processRecord_names w config t ip pip z (n # ns2) st2 of
         (st', Inl f) \<Rightarrow> (st', Inl f)
       | (st', Inr u) \<Rightarrow> processRecord_zones w config t ip pip zs2 st')"
    by (simp add: processRecord_names_append [of w config t ip pip z ns1 "n # ns2" sta] C)
  also have "\<dots> =
      (case processRecord_target w config t ip pip z n st2 of
              (st3, Inl f) \<Rightarrow> (st3, Inl f)
            | (st3, Inr u) \<Rightarrow> processRecord_zones w config t ip pip ((z, ns2) # zs2) st3)"
    by (simp split: prod.split sum.split)
  finally show ?thesis .
qed

lemma processRecord_target_absent:
  assumes "snd (getCurrentRecord w config z n t st) = Inr []"
  shows "processRecord_target w config t ip pip z n st =
           createRecord w config z n t ip
             (st\<lparr>requests := requests st @
                   [authRequest ''GET'' (HetznerApiKey config) (rrsetEndpoint z n t) None]\<rparr>)"
proof -
  have "getCurrentRecord w config z n t st =
     (st\<lparr>requests := requests st @ [authRequest ''GET'' (HetznerApiKey config) (rrsetEndpoint z n t) None]\<rparr>, Inr [])"
    using assms getCurrentRecord_state [of w config z n t st]
    by (cases "getCurrentRecord w config z n t st") simp
  then show ?thesis
    by (simp add: processRecord_target_def)
qed

lemma processRecord_target_differs:
  assumes "snd (getCurrentRecord w config z n t st) = Inr cur"
      and "cur \<noteq> []" and "\<not> Equal pip (ParseIP cur)"
  shows "processRecord_target w config t ip pip z n st =
           updateRecord w config z n t ip
             (st\<lparr>requests := requests st @
                   [authRequest ''GET'' (HetznerApiKey config) (rrsetEndpoint z n t) None]\<rparr>)"
proof -
  have "getCurrentRecord w config z n t st =
     (st\<lparr>requests := requests st @ [authRequest ''GET'' (HetznerApiKey config) (rrsetEndpoint z n t) None]\<rparr>, Inr cur)"
    using assms(1) getCurrentRecord_state [of w config z n t st]
    by (cases "getCurrentRecord w config z n t st") simp
  then show ?thesis
    using assms(2,3) by (simp add: processRecord_target_def)
qed

section \<open>The address service\<close>

text \<open>
  C7. \<open>getPublicIP\<close> sends exactly one request, a \<open>GET\<close> of the configured source URL
  without headers or body, and logs nothing. Whatever the status of the response, a body
  that was read to its end is returned whole as the address text. The call is fatal
  exactly when the client reports an error or reading the body fails; the status code
  is never looked at.
\<close>

theorem getPublicIP_single_get_ignores_status:
  "fst (getPublicIP w rc st) =
     st\<lparr>requests := requests st @ [\<lparr>Method = ''GET'', URL = Source rc, Header = [], Body = None\<rparr>]\<rparr>
   \<and> (\<forall>res. roundTrip w (requests st) \<lparr>Method = ''GET'', URL = Source rc, Header = [], Body = None\<rparr> = Inr res
            \<and> bodyErr res = None
          \<longrightarrow> snd (getPublicIP w rc st) = Inr (bodyData res))
   \<and> (isl (snd (getPublicIP w rc st)) =
        (case roundTrip w (requests st) \<lparr>Method = ''GET'', URL = Source rc, Header = [], Body = None\<rparr> of
           Inl err \<Rightarrow> True
         | Inr res \<Rightarrow> bodyErr res \<noteq> None))"
  by (auto simp: getPublicIP_def send_def split: sum.splits option.splits)

text \<open>A service that answers 503 with an address in the body: the body is the result.\<close>

theorem getPublicIP_single_get_ignores_status_witness:
  "snd (getPublicIP
         \<lparr>roundTrip = (\<lambda>sent req. Inr \<lparr>StatusCode = 503, bodyData = ''203.0.113.5'', bodyErr = None\<rparr>),
          Unmarshal = scenario_Unmarshal\<rparr>
         \<lparr>Enabled = True, Source = ''https://ipv4.seeip.org''\<rparr> initial_state) = Inr ''203.0.113.5''"
proof -
  let ?w = "\<lparr>roundTrip = (\<lambda>sent req. Inr \<lparr>StatusCode = 503, bodyData = ''203.0.113.5'', bodyErr = None\<rparr>),
          Unmarshal = scenario_Unmarshal\<rparr>"
  let ?rc = "\<lparr>Enabled = True, Source = ''https://ipv4.seeip.org''\<rparr>"
  let ?res = "\<lparr>StatusCode = 503, bodyData = ''203.0.113.5'', bodyErr = None\<rparr>"
  have h: "roundTrip ?w (requests initial_state)
             \<lparr>Method = ''GET'', URL = Source ?rc, Header = [], Body = None\<rparr> = Inr ?res
           \<and> bodyErr ?res = None"
    by simp
  from getPublicIP_single_get_ignores_status [of ?w ?rc initial_state] h
  have "snd (getPublicIP ?w ?rc initial_state) = Inr (bodyData ?res)"
    by blast
  then show ?thesis by simp
qed

section \<open>Reading, creating and updating a record set\<close>

text \<open>
  C4, as the program has it. \<open>getCurrentRecord\<close> on the answer to its one \<open>GET\<close> of the
  record's path. The body is read before the status is looked at, so for a 200 or a 404
  whose body cannot be read to its end the call is fatal with the read error. A 404
  whose body was read gives the empty string, which is Absent. A 200 whose body was
  read and decodes to a record set with at least one record gives the value of the
  first record, whatever follows it: Present of that value when it is not empty, and
  the same as Absent when it is the empty string. Every status other than 200 and 404 is
  fatal, with an error made of the status code and the body.
\<close>

theorem getCurrentRecord_status_cases:
  assumes "roundTrip w (requests st)
             \<lparr>Method = ''GET'',
              URL = ''https://api.hetzner.cloud/v1/zones/'' @ z @ ''/rrsets/'' @ n @ ''/'' @ t,
              Header = [(''Content-Type'', ''application/json''),
                        (''Authorization'', ''Bearer '' @ HetznerApiKey config)],
              Body = None\<rparr> = Inr res"
  shows "(StatusCode res = 404 \<and> bodyErr res = None
            \<longrightarrow> snd (getCurrentRecord w config z n t st) = Inr []
              \<and> readRecord w config z n t st = Inr Absent)
     \<and> (\<forall>pr r rs. StatusCode res = 200 \<and> bodyErr res = None
            \<and> Unmarshal w (bodyData res) = Inr pr \<and> Records (RRSet pr) = r # rs
            \<longrightarrow> snd (getCurrentRecord w config z n t st) = Inr (Value r)
              \<and> readRecord w config z n t st
                  = Inr (if Value r = [] then Absent else Present (Value r)))
     \<and> (StatusCode res \<noteq> 200 \<and> StatusCode res \<noteq> 404
            \<longrightarrow> snd (getCurrentRecord w config z n t st)
                = Inl (CouldNotCheckRecord (UnexpectedResponse (StatusCode res) (bodyData res))))
     \<and> (\<forall>e. (StatusCode res = 200 \<or> StatusCode res = 404) \<and> bodyErr res = Some e
            \<longrightarrow> snd (getCurrentRecord w config z n t st) = Inl (CouldNotCheckRecord e))"
  using assms
  by (simp add: readRecord_def remoteState_def getCurrentRecord_result authRequest_def rrsetEndpoint_def)

text \<open>A 404; a 200 with two values, of which the first is returned; a 500.\<close>

theorem getCurrentRecord_status_cases_witness:
  "readRecord (scenario_world ''203.0.113.5'' 404 [] 201) (scenario_config 300)
          ''example.de'' ''homelab'' ''A'' initial_state = Inr Absent
   \<and> readRecord
          \<lparr>roundTrip = (\<lambda>sent req. Inr \<lparr>StatusCode = 200, bodyData = ''two values'', bodyErr = None\<rparr>),
           Unmarshal = (\<lambda>b. Inr \<lparr>RRSet = \<lparr>Name = ''homelab'', Type = ''A'', TTL = 300,
                          Records = [\<lparr>Value = ''203.0.113.9''\<rparr>, \<lparr>Value = ''198.51.100.7''\<rparr>]\<rparr>\<rparr>)\<rparr>
          (scenario_config 300) ''example.de'' ''homelab'' ''A'' initial_state = Inr (Present ''203.0.113.9'')
   \<and> snd (getCurrentRecord (scenario_world ''203.0.113.5'' 500 ''down'' 201) (scenario_config 300)
          ''example.de'' ''homelab'' ''A'' initial_state)
       = Inl (CouldNotCheckRecord (UnexpectedResponse 500 ''down''))"
proof -
  let ?req = "\<lparr>Method = ''GET'',
              URL = ''https://api.hetzner.cloud/v1/zones/'' @ ''example.de'' @ ''/rrsets/'' @ ''homelab'' @ ''/'' @ ''A'',
              Header = [(''Content-Type'', ''application/json''),
                        (''Authorization'', ''Bearer '' @ HetznerApiKey (scenario_config 300))],
              Body = None\<rparr>"
  let ?w1 = "scenario_world ''203.0.113.5'' 404 [] 201"
  let ?r1 = "\<lparr>StatusCode = 404, bodyData = [], bodyErr = None\<rparr>"
  let ?pr = "\<lparr>RRSet = \<lparr>Name = ''homelab'', Type = ''A'', TTL = 300,
                          Records = [\<lparr>Value = ''203.0.113.9''\<rparr>, \<lparr>Value = ''198.51.100.7''\<rparr>]\<rparr>\<rparr>"
  let ?r2 = "\<lparr>StatusCode = 200, bodyData = ''two values'', bodyErr = None\<rparr>"
  let ?w2 = "\<lparr>roundTrip = (\<lambda>sent req. Inr ?r2), Unmarshal = (\<lambda>b. Inr ?pr)\<rparr>"
  let ?w3 = "scenario_world ''203.0.113.5'' 500 ''down'' 201"
  let ?r3 = "\<lparr>StatusCode = 500, bodyData = ''down'', bodyErr = None\<rparr>"
  have h1: "roundTrip ?w1 (requests initial_state) ?req = Inr ?r1"
    by (simp add: scenario_world_def)
  have h2: "roundTrip ?w2 (requests initial_state) ?req = Inr ?r2"
    by simp
  have h3: "roundTrip ?w3 (requests initial_state) ?req = Inr ?r3"
    by (simp add: scenario_world_def)
  have a: "readRecord ?w1 (scenario_config 300) ''example.de'' ''homelab'' ''A'' initial_state = Inr Absent"
    using getCurrentRecord_status_cases [OF h1] by simp
  have "StatusCode ?r2 = 200 \<and> bodyErr ?r2 = None
            \<and> Unmarshal ?w2 (bodyData ?r2) = Inr ?pr \<and> Records (RRSet ?pr) = \<lparr>Value = ''203.0.113.9''\<rparr> # [\<lparr>Value = ''198.51.100.7''\<rparr>]"
    by simp
  with getCurrentRecord_status_cases [OF h2]
  have "readRecord ?w2 (scenario_config 300) ''example.de'' ''homelab'' ''A'' initial_state
      = Inr (if Value \<lparr>Value = ''203.0.113.9''\<rparr> = [] then Absent else Present (Value \<lparr>Value = ''203.0.113.9''\<rparr>))"
    by blast
  then have b: "readRecord ?w2 (scenario_config 300) ''example.de'' ''homelab'' ''A'' initial_state
      = Inr (Present ''203.0.113.9'')"
    by simp
  have c: "snd (getCurrentRecord ?w3 (scenario_config 300) ''example.de'' ''homelab'' ''A'' initial_state)
       = Inl (CouldNotCheckRecord (UnexpectedResponse 500 ''down''))"
    using getCurrentRecord_status_cases [OF h3] by simp
  from a b c show ?thesis by simp
qed

text \<open>
  A 404 whose body breaks off is fatal, not Absent; a 200 whose first value is the empty
  string is Absent, not Present.
\<close>

theorem getCurrentRecord_unread_404_and_empty_value:
  "readRecord
      \<lparr>roundTrip = (\<lambda>sent req. Inr \<lparr>StatusCode = 404, bodyData = ''not fo'',
                                       bodyErr = Some (ReadError ''unexpected EOF'')\<rparr>),
       Unmarshal = scenario_Unmarshal\<rparr>
      (scenario_config 300) ''example.de'' ''homelab'' ''A'' initial_state
     = Inl (CouldNotCheckRecord (ReadError ''unexpected EOF''))
   \<and> readRecord
      \<lparr>roundTrip = (\<lambda>sent req. Inr \<lparr>StatusCode = 200, bodyData = ''one empty value'', bodyErr = None\<rparr>),
       Unmarshal = (\<lambda>b. Inr \<lparr>RRSet = \<lparr>Name = ''homelab'', Type = ''A'', TTL = 300,
                                      Records = [\<lparr>Value = []\<rparr>]\<rparr>\<rparr>)\<rparr>
      (scenario_config 300) ''example.de'' ''homelab'' ''A'' initial_state
     = Inr Absent"
  by code_simp

text \<open>
  C5, as the program has it. \<open>createRecord\<close> logs one line and sends one \<open>POST\<close> to the
  zone's \<open>rrsets\<close> path. The body always has a \<open>records\<close> list of exactly one element,
  whose value is the address; it has \<open>name\<close> when the record name is not empty, \<open>type\<close>
  when the record type is not empty, and \<open>ttl\<close> when the configured TTL is not zero
  (\<open>omitempty\<close>). The call succeeds exactly when a response comes back with status 201;
  a response with any other status is fatal with the status code and the body.
\<close>

theorem createRecord_payload_and_status:
  "fst (createRecord w config z n t ip st) =
     st\<lparr>requests := requests st @
          [\<lparr>Method = ''POST'',
            URL = ''https://api.hetzner.cloud/v1/zones/'' @ z @ ''/rrsets'',
            Header = [(''Content-Type'', ''application/json''),
                      (''Authorization'', ''Bearer '' @ HetznerApiKey config)],
            Body = Some (JObject
               ((if n = [] then [] else [(''name'', JString n)]) @
                (if t = [] then [] else [(''type'', JString t)]) @
                (if RecordTTL config = 0 then [] else [(''ttl'', JNumber (RecordTTL config))]) @
                [(''records'', JArray [JObject [(''value'', JString ip)]])]))\<rparr>],
        logged := logged st @ [LogCreating n z t ip]\<rparr>
   \<and> (snd (createRecord w config z n t ip st) = Inr ()) =
       (case roundTrip w (requests st)
          \<lparr>Method = ''POST'',
            URL = ''https://api.hetzner.cloud/v1/zones/'' @ z @ ''/rrsets'',
            Header = [(''Content-Type'', ''application/json''),
                      (''Authorization'', ''Bearer '' @ HetznerApiKey config)],
            Body = Some (JObject
               ((if n = [] then [] else [(''name'', JString n)]) @
                (if t = [] then [] else [(''type'', JString t)]) @
                (if RecordTTL config = 0 then [] else [(''ttl'', JNumber (RecordTTL config))]) @
                [(''records'', JArray [JObject [(''value'', JString ip)]])]))\<rparr> of
          Inl err \<Rightarrow> False
        | Inr res \<Rightarrow> StatusCode res = 201)
   \<and> (\<forall>res. roundTrip w (requests st)
          \<lparr>Method = ''POST'',
            URL = ''https://api.hetzner.cloud/v1/zones/'' @ z @ ''/rrsets'',
            Header = [(''Content-Type'', ''application/json''),
                      (''Authorization'', ''Bearer '' @ HetznerApiKey config)],
            Body = Some (JObject
               ((if n = [] then [] else [(''name'', JString n)]) @
                (if t = [] then [] else [(''type'', JString t)]) @
                (if RecordTTL config = 0 then [] else [(''ttl'', JNumber (RecordTTL config))]) @
                [(''records'', JArray [JObject [(''value'', JString ip)]])]))\<rparr> = Inr res
          \<and> StatusCode res \<noteq> 201
        \<longrightarrow> snd (createRecord w config z n t ip st)
            = Inl (CouldNotCreateRecord n z t ip (UnexpectedResponse (StatusCode res) (bodyData res))))"
proof -
  have req: "authRequest ''POST'' (HetznerApiKey config) (createEndpoint z) (Some (createPayload config n t ip))
     = \<lparr>Method = ''POST'',
            URL = ''https://api.hetzner.cloud/v1/zones/'' @ z @ ''/rrsets'',
            Header = [(''Content-Type'', ''application/json''),
                      (''Authorization'', ''Bearer '' @ HetznerApiKey config)],
            Body = Some (JObject
               ((if n = [] then [] else [(''name'', JString n)]) @
                (if t = [] then [] else [(''type'', JString t)]) @
                (if RecordTTL config = 0 then [] else [(''ttl'', JNumber (RecordTTL config))]) @
                [(''records'', JArray [JObject [(''value'', JString ip)]])]))\<rparr>"
    by (simp add: authRequest_def createEndpoint_def createPayload_def Marshal_def Marshal_rrSetRecord_def)
  have ok: "(snd (createRecord w config z n t ip st) = Inr ()) =
       (case roundTrip w (requests st) (authRequest ''POST'' (HetznerApiKey config) (createEndpoint z)
                                      (Some (createPayload config n t ip))) of
          Inl err \<Rightarrow> False
        | Inr res \<Rightarrow> StatusCode res = 201)"
    unfolding createRecord_result by (simp split: sum.split)
  have ko: "\<forall>res. roundTrip w (requests st) (authRequest ''POST'' (HetznerApiKey config) (createEndpoint z)
                                      (Some (createPayload config n t ip))) = Inr res
          \<and> StatusCode res \<noteq> 201
        \<longrightarrow> snd (createRecord w config z n t ip st)
            = Inl (CouldNotCreateRecord n z t ip (UnexpectedResponse (StatusCode res) (bodyData res)))"
    unfolding createRecord_result by simp
  show ?thesis
    using createRecord_state [of w config z n t ip st] ok ko
    unfolding req by blast
qed

text \<open>A provider that answers the \<open>POST\<close> with 500.\<close>

theorem createRecord_payload_and_status_witness:
  "snd (createRecord (scenario_world ''203.0.113.5'' 404 [] 500) (scenario_config 300)
          ''example.de'' ''homelab'' ''A'' ''203.0.113.5'' initial_state)
     = Inl (CouldNotCreateRecord ''homelab'' ''example.de'' ''A'' ''203.0.113.5''
              (UnexpectedResponse 500 ''quota''))"
proof -
  let ?w = "scenario_world ''203.0.113.5'' 404 [] 500"
  let ?c = "scenario_config 300"
  let ?rq = "\<lparr>Method = ''POST'',
            URL = ''https://api.hetzner.cloud/v1/zones/'' @ ''example.de'' @ ''/rrsets'',
            Header = [(''Content-Type'', ''application/json''),
                      (''Authorization'', ''Bearer '' @ HetznerApiKey ?c)],
            Body = Some (JObject
               ((if ''homelab'' = [] then [] else [(''name'', JString ''homelab'')]) @
                (if ''A'' = [] then [] else [(''type'', JString ''A'')]) @
                (if RecordTTL ?c = 0 then [] else [(''ttl'', JNumber (RecordTTL ?c))]) @
                [(''records'', JArray [JObject [(''value'', JString ''203.0.113.5'')]])]))\<rparr>"
  let ?res = "\<lparr>StatusCode = 500, bodyData = ''quota'', bodyErr = None\<rparr>"
  have h: "roundTrip ?w (requests initial_state) ?rq = Inr ?res \<and> StatusCode ?res \<noteq> 201"
    by (simp add: scenario_world_def)
  from createRecord_payload_and_status [of ?w ?c "''example.de''" "''homelab''" "''A''" "''203.0.113.5''" initial_state] h
  have "snd (createRecord ?w ?c ''example.de'' ''homelab'' ''A'' ''203.0.113.5'' initial_state)
      = Inl (CouldNotCreateRecord ''homelab'' ''example.de'' ''A'' ''203.0.113.5''
              (UnexpectedResponse (StatusCode ?res) (bodyData ?res)))"
    by blast
  then show ?thesis by simp
qed

text \<open>
  With \<open>RecordTTL = 0\<close> in the configuration the body that is sent has no \<open>ttl\<close>
  member: the payload does not name the configured TTL.
\<close>

theorem createRecord_zero_ttl_omitted:
  "requests (fst (createRecord (scenario_world ''203.0.113.5'' 404 [] 201) (scenario_config 0)
       ''example.de'' ''homelab'' ''A'' ''203.0.113.5'' initial_state)) =
     [\<lparr>Method = ''POST'',
       URL = ''https://api.hetzner.cloud/v1/zones/example.de/rrsets'',
       Header = [(''Content-Type'', ''application/json''), (''Authorization'', ''Bearer secret'')],
       Body = Some (JObject [(''name'', JString ''homelab''), (''type'', JString ''A''),
                             (''records'', JArray [JObject [(''value'', JString ''203.0.113.5'')]])])\<rparr>]
   \<and> map (map_option (jsonField ''ttl'') \<circ> Body)
         (requests (fst (createRecord (scenario_world ''203.0.113.5'' 404 [] 201) (scenario_config 0)
            ''example.de'' ''homelab'' ''A'' ''203.0.113.5'' initial_state))) = [Some None]"
  by code_simp

text \<open>
  C6. \<open>updateRecord\<close> logs one line and sends one \<open>POST\<close> to the record's
  \<open>actions/set_records\<close> path. The body is the object with the single member \<open>records\<close>,
  a list of exactly one element whose value is the address: \<open>name\<close>, \<open>type\<close> and \<open>ttl\<close>
  are not in it. The call succeeds exactly when a response comes back with status 201;
  a response with any other status is fatal with the status code and the body.
\<close>

theorem updateRecord_payload_and_status:
  "fst (updateRecord w config z n t ip st) =
     st\<lparr>requests := requests st @
          [\<lparr>Method = ''POST'',
            URL = ''https://api.hetzner.cloud/v1/zones/'' @ z @ ''/rrsets/'' @ n @ ''/'' @ t @ ''/actions/set_records'',
            Header = [(''Content-Type'', ''application/json''),
                      (''Authorization'', ''Bearer '' @ HetznerApiKey config)],
            Body = Some (JObject [(''records'', JArray [JObject [(''value'', JString ip)]])])\<rparr>],
        logged := logged st @ [LogUpdating n z t ip]\<rparr>
   \<and> (snd (updateRecord w config z n t ip st) = Inr ()) =
       (case roundTrip w (requests st)
          \<lparr>Method = ''POST'',
            URL = ''https://api.hetzner.cloud/v1/zones/'' @ z @ ''/rrsets/'' @ n @ ''/'' @ t @ ''/actions/set_records'',
            Header = [(''Content-Type'', ''application/json''),
                      (''Authorization'', ''Bearer '' @ HetznerApiKey config)],
            Body = Some (JObject [(''records'', JArray [JObject [(''value'', JString ip)]])])\<rparr> of
          Inl err \<Rightarrow> False
        | Inr res \<Rightarrow> StatusCode res = 201)
   \<and> (\<forall>res. roundTrip w (requests st)
          \<lparr>Method = ''POST'',
            URL = ''https://api.hetzner.cloud/v1/zones/'' @ z @ ''/rrsets/'' @ n @ ''/'' @ t @ ''/actions/set_records'',
            Header = [(''Content-Type'', ''application/json''),
                      (''Authorization'', ''Bearer '' @ HetznerApiKey config)],
            Body = Some (JObject [(''records'', JArray [JObject [(''value'', JString ip)]])])\<rparr> = Inr res
          \<and> StatusCode res \<noteq> 201
        \<longrightarrow> snd (updateRecord w config z n t ip st)
            = Inl (CouldNotUpdateRecord n z t ip (UnexpectedResponse (StatusCode res) (bodyData res))))"
proof -
  have req: "authRequest ''POST'' (HetznerApiKey config) (setRecordsEndpoint z n t) (Some (updatePayload ip))
     = \<lparr>Method = ''POST'',
            URL = ''https://api.hetzner.cloud/v1/zones/'' @ z @ ''/rrsets/'' @ n @ ''/'' @ t @ ''/actions/set_records'',
            Header = [(''Content-Type'', ''application/json''),
                      (''Authorization'', ''Bearer '' @ HetznerApiKey config)],
            Body = Some (JObject [(''records'', JArray [JObject [(''value'', JString ip)]])])\<rparr>"
    by (simp add: authRequest_def setRecordsEndpoint_def updatePayload_def Marshal_def Marshal_rrSetRecord_def)
  show ?thesis
    unfolding updateRecord_state updateRecord_result req
    by (simp split: sum.splits)
qed

text \<open>A provider that answers the \<open>POST\<close> with 500.\<close>

theorem updateRecord_payload_and_status_witness:
  "snd (updateRecord (scenario_world ''203.0.113.5'' 200 ''203.0.113.9'' 500) (scenario_config 300)
          ''example.de'' ''homelab'' ''A'' ''203.0.113.5'' initial_state)
     = Inl (CouldNotUpdateRecord ''homelab'' ''example.de'' ''A'' ''203.0.113.5''
              (UnexpectedResponse 500 ''quota''))"
proof -
  let ?w = "scenario_world ''203.0.113.5'' 200 ''203.0.113.9'' 500"
  let ?rq = "\<lparr>Method = ''POST'',
            URL = ''https://api.hetzner.cloud/v1/zones/'' @ ''example.de'' @ ''/rrsets/'' @ ''homelab'' @ ''/'' @ ''A'' @ ''/actions/set_records'',
            Header = [(''Content-Type'', ''application/json''),
                      (''Authorization'', ''Bearer '' @ HetznerApiKey (scenario_config 300))],
            Body = Some (JObject [(''records'', JArray [JObject [(''value'', JString ''203.0.113.5'')]])])\<rparr>"
  let ?res = "\<lparr>StatusCode = 500, bodyData = ''quota'', bodyErr = None\<rparr>"
  have h: "roundTrip ?w (requests initial_state) ?rq = Inr ?res \<and> StatusCode ?res \<noteq> 201"
    by (simp add: scenario_world_def)
  from updateRecord_payload_and_status [of ?w "scenario_config 300" "''example.de''" "''homelab''" "''A''" "''203.0.113.5''" initial_state] h
  have "snd (updateRecord ?w (scenario_config 300) ''example.de'' ''homelab'' ''A'' ''203.0.113.5'' initial_state)
      = Inl (CouldNotUpdateRecord ''homelab'' ''example.de'' ''A'' ''203.0.113.5''
              (UnexpectedResponse (StatusCode ?res) (bodyData ?res)))"
    by blast
  then show ?thesis by simp
qed

section \<open>The decision for one record\<close>

text \<open>
  C3. When the text from the address service does not parse as an IP address, or the
  record type is \<open>A\<close> and the address has no IPv4 form, or the record type is \<open>AAAA\<close> and
  the address has an IPv4 form, \<open>processRecord\<close> ends with the fatal error for an
  invalid address; the one request sent is the one to the address service, so the
  provider was not called.
\<close>

theorem processRecord_invalid_ip_fatal:
  assumes "Enabled rc"
      and "getPublicIP w rc st = (st1, Inr ipString)"
      and "ParseIP ipString = []
           \<or> (recordType = ''A'' \<and> To4 (ParseIP ipString) = [])
           \<or> (recordType = ''AAAA'' \<and> To4 (ParseIP ipString) \<noteq> [])"
  shows "processRecord w config recordType rc st = (st1, Inl (InvalidIP ipString))
     \<and> st1 = st\<lparr>requests := requests st @ [\<lparr>Method = ''GET'', URL = Source rc, Header = [], Body = None\<rparr>]\<rparr>"
proof -
  have "st1 = fst (getPublicIP w rc st)"
    using assms(2) by simp
  then have st1: "st1 = st\<lparr>requests := requests st @ [\<lparr>Method = ''GET'', URL = Source rc, Header = [], Body = None\<rparr>]\<rparr>"
    by (simp only: getPublicIP_state)
  have bad: "ParseIP ipString = [] \<or> ((recordType = ''A'') = (To4 (ParseIP ipString) = []))"
    using assms(3) by auto
  have "processRecord w config recordType rc st = (st1, Inl (InvalidIP ipString))"
    using assms(1,2) bad by (simp add: processRecord_def Let_def)
  with st1 show ?thesis by simp
qed

text \<open>The empty text; an IPv6 address for \<open>A\<close>; an IPv4 address for \<open>AAAA\<close>.\<close>

theorem processRecord_invalid_ip_fatal_witness:
  "processRecord (scenario_world [] 404 [] 201) (scenario_config 300) ''A''
      \<lparr>Enabled = True, Source = ''https://ipv4.seeip.org''\<rparr> initial_state
     = (\<lparr>requests = [\<lparr>Method = ''GET'', URL = ''https://ipv4.seeip.org'', Header = [], Body = None\<rparr>],
         logged = []\<rparr>, Inl (InvalidIP []))
   \<and> processRecord (scenario_world ''2001:db8::1'' 404 [] 201) (scenario_config 300) ''A''
      \<lparr>Enabled = True, Source = ''https://ipv4.seeip.org''\<rparr> initial_state
     = (\<lparr>requests = [\<lparr>Method = ''GET'', URL = ''https://ipv4.seeip.org'', Header = [], Body = None\<rparr>],
         logged = []\<rparr>, Inl (InvalidIP ''2001:db8::1''))
   \<and> processRecord (scenario_world ''203.0.113.5'' 404 [] 201) (scenario_config 300) ''AAAA''
      \<lparr>Enabled = True, Source = ''https://ipv6.seeip.org''\<rparr> initial_state
     = (\<lparr>requests = [\<lparr>Method = ''GET'', URL = ''https://ipv6.seeip.org'', Header = [], Body = None\<rparr>],
         logged = []\<rparr>, Inl (InvalidIP ''203.0.113.5''))"
proof -
  let ?rc4 = "\<lparr>Enabled = True, Source = ''https://ipv4.seeip.org''\<rparr>"
  let ?rc6 = "\<lparr>Enabled = True, Source = ''https://ipv6.seeip.org''\<rparr>"
  let ?st4 = "\<lparr>requests = [\<lparr>Method = ''GET'', URL = ''https://ipv4.seeip.org'', Header = [], Body = None\<rparr>],
         logged = []\<rparr>"
  let ?st6 = "\<lparr>requests = [\<lparr>Method = ''GET'', URL = ''https://ipv6.seeip.org'', Header = [], Body = None\<rparr>],
         logged = []\<rparr>"
  have e4: "Enabled ?rc4" and e6: "Enabled ?rc6"
    by simp_all
  have g1: "getPublicIP (scenario_world [] 404 [] 201) ?rc4 initial_state = (?st4, Inr [])"
    by code_simp
  have v1: "ParseIP [] = [] \<or> (''A'' = ''A'' \<and> To4 (ParseIP []) = [])
           \<or> (''A'' = ''AAAA'' \<and> To4 (ParseIP []) \<noteq> [])"
    by code_simp
  have g2: "getPublicIP (scenario_world ''2001:db8::1'' 404 [] 201) ?rc4 initial_state = (?st4, Inr ''2001:db8::1'')"
    by code_simp
  have v2: "ParseIP ''2001:db8::1'' = [] \<or> (''A'' = ''A'' \<and> To4 (ParseIP ''2001:db8::1'') = [])
           \<or> (''A'' = ''AAAA'' \<and> To4 (ParseIP ''2001:db8::1'') \<noteq> [])"
    by code_simp
  have g3: "getPublicIP (scenario_world ''203.0.113.5'' 404 [] 201) ?rc6 initial_state = (?st6, Inr ''203.0.113.5'')"
    by code_simp
  have v3: "ParseIP ''203.0.113.5'' = [] \<or> (''AAAA'' = ''A'' \<and> To4 (ParseIP ''203.0.113.5'') = [])
           \<or> (''AAAA'' = ''AAAA'' \<and> To4 (ParseIP ''203.0.113.5'') \<noteq> [])"
    by code_simp
  from processRecord_invalid_ip_fatal [OF e4 g1 v1, of "scenario_config 300"]
       processRecord_invalid_ip_fatal [OF e4 g2 v2, of "scenario_config 300"]
       processRecord_invalid_ip_fatal [OF e6 g3 v3, of "scenario_config 300"]
  show ?thesis by blast
qed

text \<open>
  C1, as the program has it. Take any record name \<open>n\<close> of any zone \<open>z\<close> of the
  configuration, in a run of \<open>processRecord\<close> for a record type that is switched on and
  has got a valid address \<open>ip\<close>. Suppose the run reaches it, that is, the loops over the
  zones and names before it ended without a fatal error, in the state \<open>st2\<close>, and the
  read of the record succeeds there. If the read gives the empty string, the run calls
  \<open>createRecord\<close> once for this record: the requests of the round are the read and one
  creation with the configured TTL and \<open>ip\<close> as its one value, one creation is logged
  and nothing is updated. If the read gives a value that is not empty and is not \<open>ip\<close>
  as a parsed address, the run calls \<open>updateRecord\<close> once: the requests of the round are
  the read and one update with \<open>ip\<close>, one update is logged and nothing is created. In
  both cases the run ends there if the call was fatal, and goes on with the names and
  zones after \<open>n\<close> otherwise.
\<close>

theorem processRecord_reached_target_create_or_update:
  assumes "Enabled rc"
      and "getPublicIP w rc st = (st1, Inr ip)"
      and "ParseIP ip \<noteq> []" and "(t = ''A'') \<noteq> (To4 (ParseIP ip) = [])"
      and "Zones config = zs1 @ (z, ns1 @ n # ns2) # zs2"
      and "processRecord_zones w config t ip (ParseIP ip) (zs1 @ [(z, ns1)]) st1 = (st2, Inr ())"
      and "snd (getCurrentRecord w config z n t st2) = Inr cur"
  shows "(cur = [] \<longrightarrow>
            processRecord w config t rc st =
              (case createRecord w config z n t ip
                      (st2\<lparr>requests := requests st2 @
                         [authRequest ''GET'' (HetznerApiKey config) (rrsetEndpoint z n t) None]\<rparr>) of
                 (st3, Inl f) \<Rightarrow> (st3, Inl f)
               | (st3, Inr u) \<Rightarrow>
                   processRecord_zones w config t ip (ParseIP ip) ((z, ns2) # zs2) st3)
          \<and> fst (createRecord w config z n t ip
                      (st2\<lparr>requests := requests st2 @
                         [authRequest ''GET'' (HetznerApiKey config) (rrsetEndpoint z n t) None]\<rparr>)) =
              st2\<lparr>requests := requests st2 @
                   [authRequest ''GET'' (HetznerApiKey config) (rrsetEndpoint z n t) None,
                    authRequest ''POST'' (HetznerApiKey config) (createEndpoint z)
                      (Some \<lparr>Name = n, Type = t, TTL = RecordTTL config, Records = [\<lparr>Value = ip\<rparr>]\<rparr>)],
                 logged := logged st2 @ [LogCreating n z t ip]\<rparr>)
     \<and> (cur \<noteq> [] \<and> \<not> Equal (ParseIP ip) (ParseIP cur) \<longrightarrow>
            processRecord w config t rc st =
              (case updateRecord w config z n t ip
                      (st2\<lparr>requests := requests st2 @
                         [authRequest ''GET'' (HetznerApiKey config) (rrsetEndpoint z n t) None]\<rparr>) of
                 (st3, Inl f) \<Rightarrow> (st3, Inl f)
               | (st3, Inr u) \<Rightarrow>
                   processRecord_zones w config t ip (ParseIP ip) ((z, ns2) # zs2) st3)
          \<and> fst (updateRecord w config z n t ip
                      (st2\<lparr>requests := requests st2 @
                         [authRequest ''GET'' (HetznerApiKey config) (rrsetEndpoint z n t) None]\<rparr>)) =
              st2\<lparr>requests := requests st2 @
                   [authRequest ''GET'' (HetznerApiKey config) (rrsetEndpoint z n t) None,
                    authRequest ''POST'' (HetznerApiKey config) (setRecordsEndpoint z n t)
                      (Some \<lparr>Name = [], Type = [], TTL = 0, Records = [\<lparr>Value = ip\<rparr>]\<rparr>)],
                 logged := logged st2 @ [LogUpdating n z t ip]\<rparr>)"
proof -
  have run: "processRecord w config t rc st =
      (case processRecord_target w config t ip (ParseIP ip) z n st2 of
              (st3, Inl f) \<Rightarrow> (st3, Inl f)
            | (st3, Inr u) \<Rightarrow> processRecord_zones w config t ip (ParseIP ip) ((z, ns2) # zs2) st3)"
    using processRecord_validated [OF assms(1-4), of config]
          processRecord_zones_reach [OF assms(6), of n ns2 zs2]
    by (simp add: assms(5))
  have a: "cur = [] \<Longrightarrow> processRecord_target w config t ip (ParseIP ip) z n st2 =
       createRecord w config z n t ip
         (st2\<lparr>requests := requests st2 @
            [authRequest ''GET'' (HetznerApiKey config) (rrsetEndpoint z n t) None]\<rparr>)"
    using assms(7) by (simp add: processRecord_target_absent)
  have b: "cur \<noteq> [] \<Longrightarrow> \<not> Equal (ParseIP ip) (ParseIP cur) \<Longrightarrow>
       processRecord_target w config t ip (ParseIP ip) z n st2 =
       updateRecord w config z n t ip
         (st2\<lparr>requests := requests st2 @
            [authRequest ''GET'' (HetznerApiKey config) (rrsetEndpoint z n t) None]\<rparr>)"
    using assms(7) by (simp add: processRecord_target_differs)
  have c: "fst (createRecord w config z n t ip
                      (st2\<lparr>requests := requests st2 @
                         [authRequest ''GET'' (HetznerApiKey config) (rrsetEndpoint z n t) None]\<rparr>)) =
              st2\<lparr>requests := requests st2 @
                   [authRequest ''GET'' (HetznerApiKey config) (rrsetEndpoint z n t) None,
                    authRequest ''POST'' (HetznerApiKey config) (createEndpoint z)
                      (Some \<lparr>Name = n, Type = t, TTL = RecordTTL config, Records = [\<lparr>Value = ip\<rparr>]\<rparr>)],
                 logged := logged st2 @ [LogCreating n z t ip]\<rparr>"
    by (simp add: createRecord_state createPayload_def)
  have d: "fst (updateRecord w config z n t ip
                      (st2\<lparr>requests := requests st2 @
                         [authRequest ''GET'' (HetznerApiKey config) (rrsetEndpoint z n t) None]\<rparr>)) =
              st2\<lparr>requests := requests st2 @
                   [authRequest ''GET'' (HetznerApiKey config) (rrsetEndpoint z n t) None,
                    authRequest ''POST'' (HetznerApiKey config) (setRecordsEndpoint z n t)
                      (Some \<lparr>Name = [], Type = [], TTL = 0, Records = [\<lparr>Value = ip\<rparr>]\<rparr>)],
                 logged := logged st2 @ [LogUpdating n z t ip]\<rparr>"
    by (simp add: updateRecord_state updatePayload_def)
  show ?thesis
    using run a b c d by simp
qed

text \<open>
  Two zones with three record names; the record reached is the second name of the first
  zone, after a creation (the provider answers every read with 404) and after an update
  (the provider answers every read with another address).
\<close>

theorem processRecord_reached_target_create_or_update_witness:
  "processRecord (scenario_world ''203.0.113.5'' 404 [] 201)
      ((scenario_config 300)\<lparr>Zones := [(''example.de'', [''homelab'', ''nas'']), (''example.org'', [''vpn''])]\<rparr>)
      ''A'' \<lparr>Enabled = True, Source = ''https://ipv4.seeip.org''\<rparr> initial_state =
     (case createRecord (scenario_world ''203.0.113.5'' 404 [] 201)
             ((scenario_config 300)\<lparr>Zones := [(''example.de'', [''homelab'', ''nas'']), (''example.org'', [''vpn''])]\<rparr>)
             ''example.de'' ''nas'' ''A'' ''203.0.113.5''
             (\<lparr>requests =
                 [\<lparr>Method = ''GET'', URL = ''https://ipv4.seeip.org'', Header = [], Body = None\<rparr>,
                  \<lparr>Method = ''GET'', URL = ''https://api.hetzner.cloud/v1/zones/example.de/rrsets/homelab/A'',
                    Header = [(''Content-Type'', ''application/json''), (''Authorization'', ''Bearer secret'')],
                    Body = None\<rparr>,
                  \<lparr>Method = ''POST'', URL = ''https://api.hetzner.cloud/v1/zones/example.de/rrsets'',
                    Header = [(''Content-Type'', ''application/json''), (''Authorization'', ''Bearer secret'')],
                    Body = Some (JObject [(''name'', JString ''homelab''), (''type'', JString ''A''),
                                          (''ttl'', JNumber 300),
                                          (''records'', JArray [JObject [(''value'', JString ''203.0.113.5'')]])])\<rparr>,
                  \<lparr>Method = ''GET'', URL = ''https://api.hetzner.cloud/v1/zones/example.de/rrsets/nas/A'',
                    Header = [(''Content-Type'', ''application/json''), (''Authorization'', ''Bearer secret'')],
                    Body = None\<rparr>],
               logged = [LogCreating ''homelab'' ''example.de'' ''A'' ''203.0.113.5'']\<rparr>) of
        (st3, Inl f) \<Rightarrow> (st3, Inl f)
      | (st3, Inr u) \<Rightarrow>
          processRecord_zones (scenario_world ''203.0.113.5'' 404 [] 201)
            ((scenario_config 300)\<lparr>Zones := [(''example.de'', [''homelab'', ''nas'']), (''example.org'', [''vpn''])]\<rparr>)
            ''A'' ''203.0.113.5'' (ParseIP ''203.0.113.5'')
            [(''example.de'', []), (''example.org'', [''vpn''])] st3)
   \<and> processRecord (scenario_world ''203.0.113.5'' 200 ''203.0.113.9'' 201)
      ((scenario_config 300)\<lparr>Zones := [(''example.de'', [''homelab'', ''nas'']), (''example.org'', [''vpn''])]\<rparr>)
      ''A'' \<lparr>Enabled = True, Source = ''https://ipv4.seeip.org''\<rparr> initial_state =
     (case updateRecord (scenario_world ''203.0.113.5'' 200 ''203.0.113.9'' 201)
             ((scenario_config 300)\<lparr>Zones := [(''example.de'', [''homelab'', ''nas'']), (''example.org'', [''vpn''])]\<rparr>)
             ''example.de'' ''nas'' ''A'' ''203.0.113.5''
             (\<lparr>requests =
                 [\<lparr>Method = ''GET'', URL = ''https://ipv4.seeip.org'', Header = [], Body = None\<rparr>,
                  \<lparr>Method = ''GET'', URL = ''https://api.hetzner.cloud/v1/zones/example.de/rrsets/homelab/A'',
                    Header = [(''Content-Type'', ''application/json''), (''Authorization'', ''Bearer secret'')],
                    Body = None\<rparr>,
                  \<lparr>Method = ''POST'',
                    URL = ''https://api.hetzner.cloud/v1/zones/example.de/rrsets/homelab/A/actions/set_records'',
                    Header = [(''Content-Type'', ''application/json''), (''Authorization'', ''Bearer secret'')],
                    Body = Some (JObject [(''records'', JArray [JObject [(''value'', JString ''203.0.113.5'')]])])\<rparr>,
                  \<lparr>Method = ''GET'', URL = ''https://api.hetzner.cloud/v1/zones/example.de/rrsets/nas/A'',
                    Header = [(''Content-Type'', ''application/json''), (''Authorization'', ''Bearer secret'')],
                    Body = None\<rparr>],
               logged = [LogUpdating ''homelab'' ''example.de'' ''A'' ''203.0.113.5'']\<rparr>) of
        (st3, Inl f) \<Rightarrow> (st3, Inl f)
      | (st3, Inr u) \<Rightarrow>
          processRecord_zones (scenario_world ''203.0.113.5'' 200 ''203.0.113.9'' 201)
            ((scenario_config 300)\<lparr>Zones := [(''example.de'', [''homelab'', ''nas'']), (''example.org'', [''vpn''])]\<rparr>)
            ''A'' ''203.0.113.5'' (ParseIP ''203.0.113.5'')
            [(''example.de'', []), (''example.org'', [''vpn''])] st3)"
proof -
  let ?c = "(scenario_config 300)\<lparr>Zones := [(''example.de'', [''homelab'', ''nas'']), (''example.org'', [''vpn''])]\<rparr>"
  let ?rc = "\<lparr>Enabled = True, Source = ''https://ipv4.seeip.org''\<rparr>"
  let ?wa = "scenario_world ''203.0.113.5'' 404 [] 201"
  let ?wb = "scenario_world ''203.0.113.5'' 200 ''203.0.113.9'' 201"
  let ?src = "\<lparr>Method = ''GET'', URL = ''https://ipv4.seeip.org'', Header = [], Body = None\<rparr>"
  let ?hdr = "[(''Content-Type'', ''application/json''), (''Authorization'', ''Bearer secret'')]"
  let ?rdh = "\<lparr>Method = ''GET'', URL = ''https://api.hetzner.cloud/v1/zones/example.de/rrsets/homelab/A'',
                Header = ?hdr, Body = None\<rparr>"
  let ?rdn = "\<lparr>Method = ''GET'', URL = ''https://api.hetzner.cloud/v1/zones/example.de/rrsets/nas/A'',
                Header = ?hdr, Body = None\<rparr>"
  let ?crh = "\<lparr>Method = ''POST'', URL = ''https://api.hetzner.cloud/v1/zones/example.de/rrsets'',
                Header = ?hdr,
                Body = Some (JObject [(''name'', JString ''homelab''), (''type'', JString ''A''),
                                      (''ttl'', JNumber 300),
                                      (''records'', JArray [JObject [(''value'', JString ''203.0.113.5'')]])])\<rparr>"
  let ?uph = "\<lparr>Method = ''POST'',
                URL = ''https://api.hetzner.cloud/v1/zones/example.de/rrsets/homelab/A/actions/set_records'',
                Header = ?hdr,
                Body = Some (JObject [(''records'', JArray [JObject [(''value'', JString ''203.0.113.5'')]])])\<rparr>"
  let ?st1 = "\<lparr>requests = [?src], logged = []\<rparr>"
  let ?sta = "\<lparr>requests = [?src, ?rdh, ?crh],
               logged = [LogCreating ''homelab'' ''example.de'' ''A'' ''203.0.113.5'']\<rparr>"
  let ?stb = "\<lparr>requests = [?src, ?rdh, ?uph],
               logged = [LogUpdating ''homelab'' ''example.de'' ''A'' ''203.0.113.5'']\<rparr>"
  have e: "Enabled ?rc"
    by simp
  have ga: "getPublicIP ?wa ?rc initial_state = (?st1, Inr ''203.0.113.5'')"
    by code_simp
  have gb: "getPublicIP ?wb ?rc initial_state = (?st1, Inr ''203.0.113.5'')"
    by code_simp
  have p: "ParseIP ''203.0.113.5'' \<noteq> []"
    by code_simp
  have v: "(''A'' = ''A'') \<noteq> (To4 (ParseIP ''203.0.113.5'') = [])"
    by code_simp
  have zs: "Zones ?c = [] @ (''example.de'', [''homelab''] @ ''nas'' # []) # [(''example.org'', [''vpn''])]"
    by simp
  have ba: "processRecord_zones ?wa ?c ''A'' ''203.0.113.5'' (ParseIP ''203.0.113.5'')
              ([] @ [(''example.de'', [''homelab''])]) ?st1 = (?sta, Inr ())"
    by code_simp
  have bb: "processRecord_zones ?wb ?c ''A'' ''203.0.113.5'' (ParseIP ''203.0.113.5'')
              ([] @ [(''example.de'', [''homelab''])]) ?st1 = (?stb, Inr ())"
    by code_simp
  have ra: "snd (getCurrentRecord ?wa ?c ''example.de'' ''nas'' ''A'' ?sta) = Inr []"
    by code_simp
  have rb: "snd (getCurrentRecord ?wb ?c ''example.de'' ''nas'' ''A'' ?stb) = Inr ''203.0.113.9''"
    by code_simp
  have d: "''203.0.113.9'' \<noteq> [] \<and> \<not> Equal (ParseIP ''203.0.113.5'') (ParseIP ''203.0.113.9'')"
    by code_simp
  have rda: "?sta\<lparr>requests := requests ?sta @
               [authRequest ''GET'' (HetznerApiKey ?c) (rrsetEndpoint ''example.de'' ''nas'' ''A'') None]\<rparr>
             = \<lparr>requests = [?src, ?rdh, ?crh, ?rdn],
                logged = [LogCreating ''homelab'' ''example.de'' ''A'' ''203.0.113.5'']\<rparr>"
    by (simp add: authRequest_def rrsetEndpoint_def scenario_config_def)
  have rdb: "?stb\<lparr>requests := requests ?stb @
               [authRequest ''GET'' (HetznerApiKey ?c) (rrsetEndpoint ''example.de'' ''nas'' ''A'') None]\<rparr>
             = \<lparr>requests = [?src, ?rdh, ?uph, ?rdn],
                logged = [LogUpdating ''homelab'' ''example.de'' ''A'' ''203.0.113.5'']\<rparr>"
    by (simp add: authRequest_def rrsetEndpoint_def scenario_config_def)
  have A: "processRecord ?wa ?c ''A'' ?rc initial_state =
     (case createRecord ?wa ?c ''example.de'' ''nas'' ''A'' ''203.0.113.5''
             (?sta\<lparr>requests := requests ?sta @
               [authRequest ''GET'' (HetznerApiKey ?c) (rrsetEndpoint ''example.de'' ''nas'' ''A'') None]\<rparr>) of
        (st3, Inl f) \<Rightarrow> (st3, Inl f)
      | (st3, Inr u) \<Rightarrow>
          processRecord_zones ?wa ?c ''A'' ''203.0.113.5'' (ParseIP ''203.0.113.5'')
            [(''example.de'', []), (''example.org'', [''vpn''])] st3)"
    using processRecord_reached_target_create_or_update [OF e ga p v zs ba ra] by blast
  have B: "processRecord ?wb ?c ''A'' ?rc initial_state =
     (case updateRecord ?wb ?c ''example.de'' ''nas'' ''A'' ''203.0.113.5''
             (?stb\<lparr>requests := requests ?stb @
               [authRequest ''GET'' (HetznerApiKey ?c) (rrsetEndpoint ''example.de'' ''nas'' ''A'') None]\<rparr>) of
        (st3, Inl f) \<Rightarrow> (st3, Inl f)
      | (st3, Inr u) \<Rightarrow>
          processRecord_zones ?wb ?c ''A'' ''203.0.113.5'' (ParseIP ''203.0.113.5'')
            [(''example.de'', []), (''example.org'', [''vpn''])] st3)"
    using processRecord_reached_target_create_or_update [OF e gb p v zs bb rb] d by blast
  show ?thesis
    using A B unfolding rda rdb by (rule conjI)
qed

text \<open>
  A record set that is present with the empty string as its first value is created, not
  updated. And when the creation of the first record fails, the run ends: the second
  record, which is absent as well, is neither read nor created.
\<close>

theorem processRecord_empty_value_created_and_first_failure_ends:
  "processRecord
      \<lparr>roundTrip = roundTrip (scenario_world ''203.0.113.5'' 200 ''one empty value'' 201),
       Unmarshal = (\<lambda>b. Inr \<lparr>RRSet = \<lparr>Name = ''homelab'', Type = ''A'', TTL = 300,
                                      Records = [\<lparr>Value = []\<rparr>]\<rparr>\<rparr>)\<rparr>
      (scenario_config 300) ''A'' (RecordA (scenario_config 300)) initial_state =
    (\<lparr>requests =
        [\<lparr>Method = ''GET'', URL = ''https://ipv4.seeip.org'', Header = [], Body = None\<rparr>,
         \<lparr>Method = ''GET'', URL = ''https://api.hetzner.cloud/v1/zones/example.de/rrsets/homelab/A'',
           Header = [(''Content-Type'', ''application/json''), (''Authorization'', ''Bearer secret'')],
           Body = None\<rparr>,
         \<lparr>Method = ''POST'', URL = ''https://api.hetzner.cloud/v1/zones/example.de/rrsets'',
           Header = [(''Content-Type'', ''application/json''), (''Authorization'', ''Bearer secret'')],
           Body = Some (JObject [(''name'', JString ''homelab''), (''type'', JString ''A''),
                                 (''ttl'', JNumber 300),
                                 (''records'', JArray [JObject [(''value'', JString ''203.0.113.5'')]])])\<rparr>],
       logged = [LogCreating ''homelab'' ''example.de'' ''A'' ''203.0.113.5'']\<rparr>,
     Inr ())
   \<and> processRecord (scenario_world ''203.0.113.5'' 404 [] 500)
      ((scenario_config 300)\<lparr>Zones := [(''example.de'', [''homelab'', ''nas''])]\<rparr>)
      ''A'' (RecordA (scenario_config 300)) initial_state =
    (\<lparr>requests =
        [\<lparr>Method = ''GET'', URL = ''https://ipv4.seeip.org'', Header = [], Body = None\<rparr>,
         \<lparr>Method = ''GET'', URL = ''https://api.hetzner.cloud/v1/zones/example.de/rrsets/homelab/A'',
           Header = [(''Content-Type'', ''application/json''), (''Authorization'', ''Bearer secret'')],
           Body = None\<rparr>,
         \<lparr>Method = ''POST'', URL = ''https://api.hetzner.cloud/v1/zones/example.de/rrsets'',
           Header = [(''Content-Type'', ''application/json''), (''Authorization'', ''Bearer secret'')],
           Body = Some (JObject [(''name'', JString ''homelab''), (''type'', JString ''A''),
                                 (''ttl'', JNumber 300),
                                 (''records'', JArray [JObject [(''value'', JString ''203.0.113.5'')]])])\<rparr>],
       logged = [LogCreating ''homelab'' ''example.de'' ''A'' ''203.0.113.5'']\<rparr>,
     Inl (CouldNotCreateRecord ''homelab'' ''example.de'' ''A'' ''203.0.113.5''
            (UnexpectedResponse 500 ''quota'')))"
  by code_simp

text \<open>
  C2, as the program has it. When the provider's value and the address from the service
  are both accepted by \<open>net.ParseIP\<close> and parse to the same address, whatever their
  texts, the round sends the read only, logs that the record is up to date, and
  succeeds: no creation and no update.
\<close>

theorem processRecord_target_skips_equal_address:
  assumes "snd (getCurrentRecord w config z n t st) = Inr v1"
      and "ParseIP v1 \<noteq> []"
      and "ParseIP v1 = ParseIP v2"
  shows "processRecord_target w config t v2 (ParseIP v2) z n st =
           (st\<lparr>requests := requests st @
                  [authRequest ''GET'' (HetznerApiKey config) (rrsetEndpoint z n t) None],
               logged := logged st @ [LogSkipping n z t]\<rparr>, Inr ())"
proof -
  obtain st1 where g: "getCurrentRecord w config z n t st = (st1, Inr v1)"
    using assms(1) by (cases "getCurrentRecord w config z n t st") simp
  have "st1 = fst (getCurrentRecord w config z n t st)"
    using g by simp
  then have st1: "st1 = st\<lparr>requests := requests st @ [authRequest ''GET'' (HetznerApiKey config) (rrsetEndpoint z n t) None]\<rparr>"
    by (simp only: getCurrentRecord_state)
  have ne: "v1 \<noteq> []"
    using assms(2) ParseIP_empty by auto
  have eq: "Equal (ParseIP v2) (ParseIP v1)"
    using assms(3) by (simp add: Equal_same)
  show ?thesis
    using g ne eq by (simp add: processRecord_target_def st1)
qed

text \<open>
  Two spellings of one IPv6 address; an IPv4 address and its IPv4-mapped IPv6 spelling.
\<close>

theorem processRecord_target_skips_equal_address_witness:
  "processRecord_target (scenario_world ''2001:0db8:0:0:0:0:0:1'' 200 ''2001:db8::1'' 201) (scenario_config 300)
      ''AAAA'' ''2001:0db8:0:0:0:0:0:1'' (ParseIP ''2001:0db8:0:0:0:0:0:1'') ''example.de'' ''homelab'' initial_state =
     (initial_state\<lparr>requests := requests initial_state @
         [authRequest ''GET'' (HetznerApiKey (scenario_config 300)) (rrsetEndpoint ''example.de'' ''homelab'' ''AAAA'') None],
        logged := logged initial_state @ [LogSkipping ''homelab'' ''example.de'' ''AAAA'']\<rparr>, Inr ())
   \<and> processRecord_target (scenario_world ''203.0.113.5'' 200 ''::ffff:203.0.113.5'' 201) (scenario_config 300)
      ''A'' ''203.0.113.5'' (ParseIP ''203.0.113.5'') ''example.de'' ''homelab'' initial_state =
     (initial_state\<lparr>requests := requests initial_state @
         [authRequest ''GET'' (HetznerApiKey (scenario_config 300)) (rrsetEndpoint ''example.de'' ''homelab'' ''A'') None],
        logged := logged initial_state @ [LogSkipping ''homelab'' ''example.de'' ''A'']\<rparr>, Inr ())"
proof -
  have h1: "snd (getCurrentRecord (scenario_world ''2001:0db8:0:0:0:0:0:1'' 200 ''2001:db8::1'' 201)
              (scenario_config 300) ''example.de'' ''homelab'' ''AAAA'' initial_state) = Inr ''2001:db8::1''"
    by code_simp
  have p1: "ParseIP ''2001:db8::1'' \<noteq> []"
    by code_simp
  have q1: "ParseIP ''2001:db8::1'' = ParseIP ''2001:0db8:0:0:0:0:0:1''"
    by code_simp
  have h2: "snd (getCurrentRecord (scenario_world ''203.0.113.5'' 200 ''::ffff:203.0.113.5'' 201)
              (scenario_config 300) ''example.de'' ''homelab'' ''A'' initial_state) = Inr ''::ffff:203.0.113.5''"
    by code_simp
  have p2: "ParseIP ''::ffff:203.0.113.5'' \<noteq> []"
    by code_simp
  have q2: "ParseIP ''::ffff:203.0.113.5'' = ParseIP ''203.0.113.5''"
    by code_simp
  from processRecord_target_skips_equal_address [OF h1 p1 q1] processRecord_target_skips_equal_address [OF h2 p2 q2]
  show ?thesis by blast
qed

text \<open>
  The spec's own example fails: \<open>net.ParseIP\<close> refuses an octet with a leading zero, so
  the provider's value \<open>001.002.003.000\<close> is no address and is not equal to the
  candidate \<open>1.2.3.0\<close>; the run sends an update.
\<close>

theorem processRecord_leading_zero_remote_updated:
  "processRecord (scenario_world ''1.2.3.0'' 200 ''001.002.003.000'' 201) (scenario_config 300) ''A''
      (RecordA (scenario_config 300)) initial_state =
    (\<lparr>requests =
        [\<lparr>Method = ''GET'', URL = ''https://ipv4.seeip.org'', Header = [], Body = None\<rparr>,
         \<lparr>Method = ''GET'', URL = ''https://api.hetzner.cloud/v1/zones/example.de/rrsets/homelab/A'',
           Header = [(''Content-Type'', ''application/json''), (''Authorization'', ''Bearer secret'')],
           Body = None\<rparr>,
         \<lparr>Method = ''POST'',
           URL = ''https://api.hetzner.cloud/v1/zones/example.de/rrsets/homelab/A/actions/set_records'',
           Header = [(''Content-Type'', ''application/json''), (''Authorization'', ''Bearer secret'')],
           Body = Some (JObject [(''records'', JArray [JObject [(''value'', JString ''1.2.3.0'')]])])\<rparr>],
       logged = [LogUpdating ''homelab'' ''example.de'' ''A'' ''1.2.3.0'']\<rparr>,
     Inr ())"
  by code_simp

text \<open>
  C10. When the provider answers the read with 200 and a record set whose list of
  records is empty, the round goes on as for an absent record: it calls \<open>createRecord\<close>,
  sends the read and one creation request, and no update.
\<close>

theorem processRecord_target_empty_records_creates:
  assumes "roundTrip w (requests st)
             (authRequest ''GET'' (HetznerApiKey config) (rrsetEndpoint z n t) None) = Inr res"
      and "StatusCode res = 200" and "bodyErr res = None"
      and "Unmarshal w (bodyData res) = Inr pr" and "Records (RRSet pr) = []"
  shows "processRecord_target w config t ip pip z n st =
           createRecord w config z n t ip
             (st\<lparr>requests := requests st @
                   [authRequest ''GET'' (HetznerApiKey config) (rrsetEndpoint z n t) None]\<rparr>)
     \<and> fst (processRecord_target w config t ip pip z n st) =
           st\<lparr>requests := requests st @
                [authRequest ''GET'' (HetznerApiKey config) (rrsetEndpoint z n t) None,
                 authRequest ''POST'' (HetznerApiKey config) (createEndpoint z)
                   (Some \<lparr>Name = n, Type = t, TTL = RecordTTL config, Records = [\<lparr>Value = ip\<rparr>]\<rparr>)],
              logged := logged st @ [LogCreating n z t ip]\<rparr>"
proof -
  have r: "snd (getCurrentRecord w config z n t st) = Inr []"
    using assms by (simp add: getCurrentRecord_result)
  have g: "getCurrentRecord w config z n t st =
     (st\<lparr>requests := requests st @ [authRequest ''GET'' (HetznerApiKey config) (rrsetEndpoint z n t) None]\<rparr>, Inr [])"
    using r getCurrentRecord_state [of w config z n t st]
    by (cases "getCurrentRecord w config z n t st") simp
  have a: "processRecord_target w config t ip pip z n st =
           createRecord w config z n t ip
             (st\<lparr>requests := requests st @
                   [authRequest ''GET'' (HetznerApiKey config) (rrsetEndpoint z n t) None]\<rparr>)"
    using g by (simp add: processRecord_target_def)
  show ?thesis
    unfolding a by (simp add: createRecord_state createPayload_def)
qed

theorem processRecord_target_empty_records_creates_witness:
  "fst (processRecord_target (scenario_world ''203.0.113.5'' 200 [] 201) (scenario_config 300) ''A''
         ''203.0.113.5'' (ParseIP ''203.0.113.5'') ''example.de'' ''homelab'' initial_state) =
     initial_state\<lparr>requests := requests initial_state @
         [authRequest ''GET'' (HetznerApiKey (scenario_config 300)) (rrsetEndpoint ''example.de'' ''homelab'' ''A'') None,
          authRequest ''POST'' (HetznerApiKey (scenario_config 300)) (createEndpoint ''example.de'')
            (Some \<lparr>Name = ''homelab'', Type = ''A'', TTL = RecordTTL (scenario_config 300),
                   Records = [\<lparr>Value = ''203.0.113.5''\<rparr>]\<rparr>)],
       logged := logged initial_state @ [LogCreating ''homelab'' ''example.de'' ''A'' ''203.0.113.5'']\<rparr>"
proof -
  let ?w = "scenario_world ''203.0.113.5'' 200 [] 201"
  let ?res = "\<lparr>StatusCode = 200, bodyData = [], bodyErr = None\<rparr>"
  let ?pr = "\<lparr>RRSet = \<lparr>Name = [], Type = [], TTL = 0, Records = []\<rparr>\<rparr>"
  have h: "roundTrip ?w (requests initial_state)
             (authRequest ''GET'' (HetznerApiKey (scenario_config 300))
                (rrsetEndpoint ''example.de'' ''homelab'' ''A'') None) = Inr ?res"
    by (simp add: scenario_world_def authRequest_def)
  have s: "StatusCode ?res = 200" and b: "bodyErr ?res = None"
    by simp_all
  have u: "Unmarshal ?w (bodyData ?res) = Inr ?pr"
    by (simp add: scenario_world_def scenario_Unmarshal_def)
  have r: "Records (RRSet ?pr) = []"
    by simp
  from processRecord_target_empty_records_creates [OF h s b u r, of "''203.0.113.5''" "ParseIP ''203.0.113.5''"]
  show ?thesis by blast
qed

section \<open>The credential and the diagnostic\<close>

text \<open>
  C9. Two calls of \<open>doAuthenticated\<close> that differ only in the API key and get the same
  answer from the network return the same value, so the error does not depend on the
  credential; on a status that is not expected the error is made of the status code and
  the body of the response, and of nothing else.
\<close>

theorem doAuthenticated_error_independent_of_apiKey:
  assumes "roundTrip w (requests st) (authRequest m k1 u p) = roundTrip w (requests st) (authRequest m k2 u p)"
  shows "snd (doAuthenticated w m k1 u p e rb st) = snd (doAuthenticated w m k2 u p e rb st)
     \<and> (\<forall>res. roundTrip w (requests st) (authRequest m k1 u p) = Inr res \<and> StatusCode res \<notin> set e
           \<longrightarrow> snd (doAuthenticated w m k1 u p e rb st)
               = Inl (UnexpectedResponse (StatusCode res) (bodyData res)))"
  using assms by (simp add: doAuthenticated_result)

theorem doAuthenticated_error_independent_of_apiKey_witness:
  "snd (doAuthenticated (scenario_world ''203.0.113.5'' 500 ''down'' 201)
          ''GET'' ''secret'' ''u'' None [200, 404] True initial_state)
     = snd (doAuthenticated (scenario_world ''203.0.113.5'' 500 ''down'' 201)
          ''GET'' ''other'' ''u'' None [200, 404] True initial_state)
   \<and> snd (doAuthenticated (scenario_world ''203.0.113.5'' 500 ''down'' 201)
          ''GET'' ''secret'' ''u'' None [200, 404] True initial_state)
     = Inl (UnexpectedResponse 500 ''down'')"
proof -
  let ?w = "scenario_world ''203.0.113.5'' 500 ''down'' 201"
  let ?res = "\<lparr>StatusCode = 500, bodyData = ''down'', bodyErr = None\<rparr>"
  have same: "roundTrip ?w (requests initial_state) (authRequest ''GET'' ''secret'' ''u'' None)
      = roundTrip ?w (requests initial_state) (authRequest ''GET'' ''other'' ''u'' None)"
    by (simp add: scenario_world_def authRequest_def)
  have r: "roundTrip ?w (requests initial_state) (authRequest ''GET'' ''secret'' ''u'' None) = Inr ?res
      \<and> StatusCode ?res \<notin> set [200, 404]"
    by (simp add: scenario_world_def authRequest_def)
  from doAuthenticated_error_independent_of_apiKey [OF same, of "[200, 404]" True] r
  show ?thesis by fastforce
qed

section \<open>A record type that is switched off\<close>

text \<open>
  C8. When \<open>Enabled\<close> is false, \<open>processRecord\<close> returns at once: no request is sent,
  to the address service or to the provider, and nothing is logged.
\<close>

theorem processRecord_disabled_untouched:
  "\<not> Enabled rc \<Longrightarrow> processRecord w config t rc st = (st, Inr ())"
  by (simp add: processRecord_def)

theorem processRecord_disabled_untouched_witness:
  "processRecord (scenario_world ''203.0.113.5'' 404 [] 201) (scenario_config 300) ''AAAA''
     (RecordAAAA (scenario_config 300)) initial_state = (initial_state, Inr ())"
proof -
  have "\<not> Enabled (RecordAAAA (scenario_config 300))"
    by (simp add: scenario_config_def)
  then show ?thesis by (rule processRecord_disabled_untouched)
qed

section \<open>Whole runs of one record type\<close>

text \<open>
  The four end-to-end scenarios, run through \<open>processRecord\<close> from the empty state: a
  creation after a 404, an update of another address, no mutation for the same address,
  and a provider error that ends the run before any mutation.
\<close>

lemma scenario_1_create:
  "processRecord (scenario_world ''2001:db8::1'' 404 [] 201) (scenario_config 300) ''AAAA''
      \<lparr>Enabled = True, Source = ''https://ipv6.seeip.org''\<rparr> initial_state =
    (\<lparr>requests =
        [\<lparr>Method = ''GET'', URL = ''https://ipv6.seeip.org'', Header = [], Body = None\<rparr>,
         \<lparr>Method = ''GET'', URL = ''https://api.hetzner.cloud/v1/zones/example.de/rrsets/homelab/AAAA'',
           Header = [(''Content-Type'', ''application/json''), (''Authorization'', ''Bearer secret'')],
           Body = None\<rparr>,
         \<lparr>Method = ''POST'', URL = ''https://api.hetzner.cloud/v1/zones/example.de/rrsets'',
           Header = [(''Content-Type'', ''application/json''), (''Authorization'', ''Bearer secret'')],
           Body = Some (JObject [(''name'', JString ''homelab''), (''type'', JString ''AAAA''),
                                 (''ttl'', JNumber 300),
                                 (''records'', JArray [JObject [(''value'', JString ''2001:db8::1'')]])])\<rparr>],
       logged = [LogCreating ''homelab'' ''example.de'' ''AAAA'' ''2001:db8::1'']\<rparr>,
     Inr ())"
  by code_simp

lemma scenario_2_update:
  "processRecord (scenario_world ''203.0.113.5'' 200 ''203.0.113.9'' 201) (scenario_config 300) ''A''
      (RecordA (scenario_config 300)) initial_state =
    (\<lparr>requests =
        [\<lparr>Method = ''GET'', URL = ''https://ipv4.seeip.org'', Header = [], Body = None\<rparr>,
         \<lparr>Method = ''GET'', URL = ''https://api.hetzner.cloud/v1/zones/example.de/rrsets/homelab/A'',
           Header = [(''Content-Type'', ''application/json''), (''Authorization'', ''Bearer secret'')],
           Body = None\<rparr>,
         \<lparr>Method = ''POST'',
           URL = ''https://api.hetzner.cloud/v1/zones/example.de/rrsets/homelab/A/actions/set_records'',
           Header = [(''Content-Type'', ''application/json''), (''Authorization'', ''Bearer secret'')],
           Body = Some (JObject [(''records'', JArray [JObject [(''value'', JString ''203.0.113.5'')]])])\<rparr>],
       logged = [LogUpdating ''homelab'' ''example.de'' ''A'' ''203.0.113.5'']\<rparr>,
     Inr ())"
  by code_simp

lemma scenario_3_up_to_date:
  "processRecord (scenario_world ''203.0.113.5'' 200 ''203.0.113.5'' 201) (scenario_config 300) ''A''
      (RecordA (scenario_config 300)) initial_state =
    (\<lparr>requests =
        [\<lparr>Method = ''GET'', URL = ''https://ipv4.seeip.org'', Header = [], Body = None\<rparr>,
         \<lparr>Method = ''GET'', URL = ''https://api.hetzner.cloud/v1/zones/example.de/rrsets/homelab/A'',
           Header = [(''Content-Type'', ''application/json''), (''Authorization'', ''Bearer secret'')],
           Body = None\<rparr>],
       logged = [LogSkipping ''homelab'' ''example.de'' ''A'']\<rparr>,
     Inr ())"
  by code_simp

lemma scenario_4_provider_error:
  "processRecord (scenario_world ''203.0.113.5'' 500 ''down'' 201) (scenario_config 300) ''A''
      (RecordA (scenario_config 300)) initial_state =
    (\<lparr>requests =
        [\<lparr>Method = ''GET'', URL = ''https://ipv4.seeip.org'', Header = [], Body = None\<rparr>,
         \<lparr>Method = ''GET'', URL = ''https://api.hetzner.cloud/v1/zones/example.de/rrsets/homelab/A'',
           Header = [(''Content-Type'', ''application/json''), (''Authorization'', ''Bearer secret'')],
           Body = None\<rparr>],
       logged = []\<rparr>,
     Inl (CouldNotCheckRecord (UnexpectedResponse 500 ''down'')))"
  by code_simp

end
